theory Spec2Isabelle
  imports Main "HOL-Library.Char_ord" "HOL-Library.List_Lexorder"
begin

section \<open>Go values\<close>

text \<open>
  A Go pointer \<^verbatim>\<open>*T\<close> is modelled as \<open>'a option\<close> (\<open>None\<close> is \<^verbatim>\<open>nil\<close>), and a
  slice \<^verbatim>\<open>[]string\<close> as \<open>string list option\<close>: \<open>None\<close> is the nil slice,
  \<open>Some []\<close> the empty slice that is not nil. Strings are byte lists and are compared
  byte by byte, lexicographically, which is the order of Go's \<^verbatim>\<open><\<close> on strings and so
  of \<^verbatim>\<open>sort.Strings\<close>. Since two strings that compare equal are the same string, the
  sorted arrangement of a slice is unique and \<open>sort\<close> computes what \<^verbatim>\<open>sort.Strings\<close>
  leaves in the slice.
\<close>

type_synonym strslice = "string list option"

definition len :: "strslice \<Rightarrow> nat" where
  "len s = (case s of None \<Rightarrow> 0 | Some xs \<Rightarrow> length xs)"

section \<open>Package client: normalizeDescription and normalizeTags\<close>

definition normalizeDescription :: "string option \<Rightarrow> string option" where
  "normalizeDescription desc =
     (case desc of
        None \<Rightarrow> desc
      | Some d \<Rightarrow> if d = [] then None else desc)"

definition normalizeTags :: "strslice \<Rightarrow> strslice" where
  "normalizeTags tags =
     (case tags of
        None \<Rightarrow> Some []
      | Some xs \<Rightarrow> Some (sort xs))"


section \<open>Package client: APIError and the error predicates\<close>

text \<open>
  Go errors as values. \<open>Wrapf text err\<close> is \<^verbatim>\<open>fmt.Errorf("<text>: %w", err)\<close>, an
  error that unwraps to \<open>err\<close>; \<open>Errorf text\<close> is an error made of a message only.
  \<open>TransportError\<close> stands for the errors of the HTTP client and of reading a body,
  \<open>ContextError\<close> for \<^verbatim>\<open>ctx.Err()\<close>; neither unwraps to an \<open>APIError\<close>.
\<close>

datatype error =
    APIError int string string
  | TransportError string
  | ContextError
  | Errorf string
  | Wrapf string error

text \<open>\<^verbatim>\<open>errors.As(err, &apiErr)\<close>: the first \<open>APIError\<close> on the unwrap chain, as
  (StatusCode, Message, Body).\<close>

fun As_APIError :: "error \<Rightarrow> (int \<times> string \<times> string) option" where
  "As_APIError (APIError status message body) = Some (status, message, body)"
| "As_APIError (Wrapf text err) = As_APIError err"
| "As_APIError (TransportError m) = None"
| "As_APIError ContextError = None"
| "As_APIError (Errorf text) = None"

definition StatusNotFound :: int where "StatusNotFound = 404"
definition StatusConflict :: int where "StatusConflict = 409"
definition StatusTooManyRequests :: int where "StatusTooManyRequests = 429"

definition IsNotFound :: "error \<Rightarrow> bool" where
  "IsNotFound err =
     (case As_APIError err of
        Some (status, message, body) \<Rightarrow> status = StatusNotFound
      | None \<Rightarrow> False)"

definition IsConflict :: "error \<Rightarrow> bool" where
  "IsConflict err =
     (case As_APIError err of
        Some (status, message, body) \<Rightarrow> status = StatusConflict
      | None \<Rightarrow> False)"

definition IsRetryable :: "error \<Rightarrow> bool" where
  "IsRetryable err =
     (case As_APIError err of
        Some (status, message, body) \<Rightarrow> status = StatusTooManyRequests \<or> status \<ge> 500
      | None \<Rightarrow> False)"

definition ConflictError :: "string \<Rightarrow> error" where
  "ConflictError resourceType =
     Errorf (resourceType @ '' already exists, use `terraform import` to manage it'')"

section \<open>Package client: request and response structs\<close>

text \<open>
  A JSON object is the list of its members in the order \<^verbatim>\<open>json.Marshal\<close> writes them
  (the order of the struct's fields). A member tagged \<^verbatim>\<open>omitempty\<close> is left out when
  the field is the zero of its type: a nil pointer, \<open>0\<close>, \<open>false\<close>, or a slice of
  length \<open>0\<close> (nil or not).
\<close>

datatype json = JString string | JNumber int | JBool bool | JArray "json list"

type_synonym payload = "(string \<times> json) list"

definition omitempty_ptr :: "string \<Rightarrow> ('a \<Rightarrow> json) \<Rightarrow> 'a option \<Rightarrow> payload" where
  "omitempty_ptr key enc p = (case p of None \<Rightarrow> [] | Some v \<Rightarrow> [(key, enc v)])"

definition omitempty_strings :: "string \<Rightarrow> strslice \<Rightarrow> payload" where
  "omitempty_strings key s =
     (case s of
        None \<Rightarrow> []
      | Some xs \<Rightarrow> if length xs = 0 then [] else [(key, JArray (map JString xs))])"

definition omitempty_int64 :: "string \<Rightarrow> int \<Rightarrow> payload" where
  "omitempty_int64 key i = (if i = 0 then [] else [(key, JNumber i)])"

definition omitempty_bool :: "string \<Rightarrow> bool \<Rightarrow> payload" where
  "omitempty_bool key b = (if b then [(key, JBool b)] else [])"

text \<open>Times are carried as their RFC 3339 text, the only form the provider reads them in.\<close>

type_synonym time = string

record Check =
  chk_ID :: string
  chk_ProjectID :: string
  chk_Name :: string
  chk_Slug :: string
  chk_PeriodSeconds :: int
  chk_GraceSeconds :: int
  chk_Description :: "string option"
  chk_Tags :: strslice
  chk_Paused :: bool
  chk_PublicID :: string
  chk_Status :: string
  chk_CreatedAt :: time
  chk_DeletedAt :: "time option"

definition zero_Check :: Check where
  "zero_Check = \<lparr>chk_ID = [], chk_ProjectID = [], chk_Name = [], chk_Slug = [],
     chk_PeriodSeconds = 0, chk_GraceSeconds = 0, chk_Description = None, chk_Tags = None,
     chk_Paused = False, chk_PublicID = [], chk_Status = [], chk_CreatedAt = [],
     chk_DeletedAt = None\<rparr>"

record CreateCheckRequest =
  ccr_ProjectID :: string
  ccr_Name :: string
  ccr_Slug :: string
  ccr_PeriodSeconds :: int
  ccr_GraceSeconds :: int
  ccr_Description :: "string option"
  ccr_Tags :: strslice
  ccr_Paused :: bool

definition marshal_CreateCheckRequest :: "CreateCheckRequest \<Rightarrow> payload" where
  "marshal_CreateCheckRequest r =
     [(''project_id'', JString (ccr_ProjectID r)),
      (''name'', JString (ccr_Name r)),
      (''slug'', JString (ccr_Slug r)),
      (''period_seconds'', JNumber (ccr_PeriodSeconds r))]
     @ omitempty_int64 ''grace_seconds'' (ccr_GraceSeconds r)
     @ omitempty_ptr ''description'' JString (ccr_Description r)
     @ omitempty_strings ''tags'' (ccr_Tags r)
     @ omitempty_bool ''paused'' (ccr_Paused r)"

record UpdateCheckRequest =
  ucr_Name :: "string option"
  ucr_PeriodSeconds :: "int option"
  ucr_GraceSeconds :: "int option"
  ucr_Description :: "string option"
  ucr_Tags :: strslice
  ucr_Paused :: "bool option"

definition marshal_UpdateCheckRequest :: "UpdateCheckRequest \<Rightarrow> payload" where
  "marshal_UpdateCheckRequest r =
     omitempty_ptr ''name'' JString (ucr_Name r)
     @ omitempty_ptr ''period_seconds'' JNumber (ucr_PeriodSeconds r)
     @ omitempty_ptr ''grace_seconds'' JNumber (ucr_GraceSeconds r)
     @ omitempty_ptr ''description'' JString (ucr_Description r)
     @ omitempty_strings ''tags'' (ucr_Tags r)
     @ omitempty_ptr ''paused'' JBool (ucr_Paused r)"

record Project =
  prj_ID :: string
  prj_OrgID :: string
  prj_Name :: string
  prj_Description :: "string option"
  prj_CreatedAt :: time
  prj_UpdatedAt :: time
  prj_ArchivedAt :: "time option"

definition zero_Project :: Project where
  "zero_Project = \<lparr>prj_ID = [], prj_OrgID = [], prj_Name = [], prj_Description = None,
     prj_CreatedAt = [], prj_UpdatedAt = [], prj_ArchivedAt = None\<rparr>"

record CreateProjectRequest =
  cpr_OrgID :: string
  cpr_Name :: string
  cpr_Description :: "string option"

definition marshal_CreateProjectRequest :: "CreateProjectRequest \<Rightarrow> payload" where
  "marshal_CreateProjectRequest r =
     [(''org_id'', JString (cpr_OrgID r)),
      (''name'', JString (cpr_Name r))]
     @ omitempty_ptr ''description'' JString (cpr_Description r)"

record UpdateProjectRequest =
  upr_Name :: "string option"
  upr_Description :: "string option"

definition marshal_UpdateProjectRequest :: "UpdateProjectRequest \<Rightarrow> payload" where
  "marshal_UpdateProjectRequest r =
     omitempty_ptr ''name'' JString (upr_Name r)
     @ omitempty_ptr ''description'' JString (upr_Description r)"


definition field :: "payload \<Rightarrow> string \<Rightarrow> json option" where
  "field p key = map_of p key"

section \<open>Package client: the transport layer, doRequest\<close>

definition MaxRetries :: nat where "MaxRetries = 5"

text \<open>Durations are counted in nanoseconds, as \<^verbatim>\<open>time.Duration\<close> does.\<close>

definition BaseRetryDelay :: int where "BaseRetryDelay = 1000000000"

record Client =
  baseURL :: string
  apiKey :: string
  userAgent :: string
  orgID :: string
  pingURLBase :: string

record request =
  req_method :: string
  req_url :: string
  req_headers :: "(string \<times> string) list"
  req_body :: "payload option"

text \<open>
  What the outside world does in one pass of the retry loop. A response carries its status
  and body together with what \<^verbatim>\<open>encoding/json\<close> makes of that body: \<open>resp_errResp\<close> is
  \<^verbatim>\<open>json.Unmarshal(respBody, &errResp)\<close> (\<open>None\<close> when it fails, else the fields
  \<^verbatim>\<open>error\<close> and \<^verbatim>\<open>message\<close>), \<open>resp_decoded\<close> is
  \<^verbatim>\<open>json.Unmarshal(respBody, result)\<close> on a fresh result struct (\<open>None\<close> when it fails).
\<close>

record 'r response =
  resp_StatusCode :: int
  resp_Body :: string
  resp_errResp :: "(string \<times> string) option"
  resp_decoded :: "'r option"

datatype 'r outcome =
    NewRequestFails string
  | DoFails string
  | ReadAllFails string
  | Responds "'r response"

text \<open>
  One tick of the environment is consumed by each pass of the loop: whether the caller's
  context is done before the backoff timer fires, the draw of the random source, and the
  outcome of the HTTP exchange. The world is the number of ticks consumed and the log of
  the requests handed to the HTTP client, each with the pass that sent it and the time
  slept before it.
\<close>

record 'r tick =
  ctx_done :: bool
  rand_draw :: int
  outcome :: "'r outcome"

type_synonym 'r env = "nat \<Rightarrow> 'r tick"

record sent_entry =
  attempt_no :: nat
  waited :: int
  sent_req :: request

record world =
  clock :: nat
  sent :: "sent_entry list"

text \<open>
  The backoff of pass \<open>attempt > 0\<close>:
  \<^verbatim>\<open>delay := time.Duration(math.Pow(2, float64(attempt-1))) * BaseRetryDelay\<close>. The powers
  \<open>2^0 .. 2^4\<close> are exact in floating point, so the conversion yields the integer power.
  \<^verbatim>\<open>rand.Int63n(n)\<close> returns some number of \<open>[0, n)\<close> for \<open>n > 0\<close>; the draw of the
  random source reduced modulo \<open>n\<close> ranges over exactly that interval.
\<close>

definition backoff :: "nat \<Rightarrow> int" where
  "backoff attempt = 2 ^ (attempt - 1) * BaseRetryDelay"

definition Int63n :: "int \<Rightarrow> int \<Rightarrow> int" where
  "Int63n n draw = draw mod n"

definition retry_delay :: "nat \<Rightarrow> int \<Rightarrow> int" where
  "retry_delay attempt draw =
     (let delay = backoff attempt;
          jitter = Int63n (delay div 2) draw
      in delay + jitter)"

definition new_request :: "Client \<Rightarrow> string \<Rightarrow> string \<Rightarrow> payload option \<Rightarrow> request" where
  "new_request c verb path body =
     \<lparr>req_method = verb,
      req_url = baseURL c @ path,
      req_headers =
        [(''Authorization'', ''Bearer '' @ apiKey c),
         (''Content-Type'', ''application/json''),
         (''Accept'', ''application/json''),
         (''User-Agent'', userAgent c)],
      req_body = body\<rparr>"

text \<open>The \<open>APIError\<close> built from a response of status 400 or more: the message is the
  \<^verbatim>\<open>error\<close> field if not empty, else the \<^verbatim>\<open>message\<close> field, else empty.\<close>

definition api_error :: "'r response \<Rightarrow> error" where
  "api_error resp =
     APIError (resp_StatusCode resp)
       (case resp_errResp resp of
          None \<Rightarrow> []
        | Some (err, msg) \<Rightarrow> if err \<noteq> [] then err else msg)
       (resp_Body resp)"

text \<open>
  One pass of the loop of \<open>doRequest\<close>, at pass number \<open>attempt\<close>, against one tick: it
  either returns from \<open>doRequest\<close> (\<open>Return\<close>; \<open>Inr None\<close> leaves the result target as it
  was, \<open>Inr (Some v)\<close> has decoded \<open>v\<close> into it) or goes on to the next pass with
  \<open>lastErr\<close> set (\<open>Continue\<close>). With it comes the request sent in this pass, if one was.
  \<open>want\<close> says that the result target is not nil. The body is handed over already
  marshalled; marshalling the request structs of this client cannot fail.
\<close>

datatype 'r pass = Return "error + 'r option" | Continue error

definition doRequest_attempt ::
  "Client \<Rightarrow> 'r tick \<Rightarrow> string \<Rightarrow> string \<Rightarrow> payload option \<Rightarrow> bool \<Rightarrow> nat
     \<Rightarrow> 'r pass \<times> sent_entry list" where
  "doRequest_attempt c t verb path body want attempt =
     (let delay = (if attempt > 0 then retry_delay attempt (rand_draw t) else 0);
          entry = \<lparr>attempt_no = attempt, waited = delay,
                   sent_req = new_request c verb path body\<rparr>
      in
      if attempt > 0 \<and> ctx_done t then (Return (Inl ContextError), [])
      else
        (case outcome t of
           NewRequestFails m \<Rightarrow>
             (Return (Inl (Wrapf ''failed to create request'' (TransportError m))), [])
         | DoFails m \<Rightarrow> (Continue (TransportError m), [entry])
         | ReadAllFails m \<Rightarrow>
             (Continue (Wrapf ''failed to read response body'' (TransportError m)), [entry])
         | Responds resp \<Rightarrow>
             if resp_StatusCode resp \<ge> 400 then
               (if IsRetryable (api_error resp) \<and> attempt < MaxRetries
                then (Continue (api_error resp), [entry])
                else (Return (Inl (api_error resp)), [entry]))
             else if want \<and> length (resp_Body resp) > 0 then
               (case resp_decoded resp of
                  None \<Rightarrow>
                    (Return (Inl (Wrapf ''failed to parse response''
                       (Errorf ''invalid JSON''))), [entry])
                | Some v \<Rightarrow> (Return (Inr (Some v)), [entry]))
             else (Return (Inr None), [entry])))"

function doRequest_loop ::
  "Client \<Rightarrow> 'r env \<Rightarrow> string \<Rightarrow> string \<Rightarrow> payload option \<Rightarrow> bool \<Rightarrow> nat
     \<Rightarrow> error option \<Rightarrow> world \<Rightarrow> (error + 'r option) \<times> world" where
  "doRequest_loop c env verb path body want attempt lastErr w =
     (if attempt \<le> MaxRetries then
        (case doRequest_attempt c (env (clock w)) verb path body want attempt of
           (Return r, log) \<Rightarrow> (r, \<lparr>clock = Suc (clock w), sent = sent w @ log\<rparr>)
         | (Continue err, log) \<Rightarrow>
             doRequest_loop c env verb path body want (Suc attempt) (Some err)
               \<lparr>clock = Suc (clock w), sent = sent w @ log\<rparr>)
      else
        (case lastErr of
           Some err \<Rightarrow> (Inl (Wrapf ''max retries exceeded'' err), w)
         | None \<Rightarrow> (Inl (Errorf ''max retries exceeded: %!w(<nil>)''), w)))"
  by pat_completeness auto
termination
  by (relation "measure (\<lambda>(c, env, verb, path, body, want, attempt, lastErr, w).
        Suc MaxRetries - attempt)") auto

declare doRequest_loop.simps [simp del]

definition doRequest ::
  "Client \<Rightarrow> 'r env \<Rightarrow> string \<Rightarrow> string \<Rightarrow> payload option \<Rightarrow> bool \<Rightarrow> world
     \<Rightarrow> (error + 'r option) \<times> world" where
  "doRequest c env verb path body want w =
     doRequest_loop c env verb path body want 0 None w"

text \<open>The result struct after \<open>doRequest\<close>: the decoded value, or the zero value it was
  declared with.\<close>

definition target :: "'r \<Rightarrow> 'r option \<Rightarrow> 'r" where
  "target zero res = (case res of None \<Rightarrow> zero | Some v \<Rightarrow> v)"


subsection \<open>Vocabulary for statements about one logical request\<close>

text \<open>
  An outcome is transient when the loop goes on to another pass after it (as long as
  passes are left): the HTTP client or the reading of the body failed, or the status is
  429 or 5xx.
\<close>

definition transient :: "'r outcome \<Rightarrow> bool" where
  "transient out =
     (case out of
        NewRequestFails m \<Rightarrow> False
      | DoFails m \<Rightarrow> True
      | ReadAllFails m \<Rightarrow> True
      | Responds resp \<Rightarrow> resp_StatusCode resp = 429 \<or> resp_StatusCode resp \<ge> 500)"

text \<open>
  \<open>answered env w k resp\<close>: a logical request started in world \<open>w\<close> meets \<open>k\<close> transient
  outcomes, is never cancelled while it backs off, and in its pass number \<open>k\<close> gets the
  response \<open>resp\<close>.
\<close>

definition answered :: "'r env \<Rightarrow> world \<Rightarrow> nat \<Rightarrow> 'r response \<Rightarrow> bool" where
  "answered env w k resp =
     (k \<le> MaxRetries
      \<and> list_all (\<lambda>i. transient (outcome (env (clock w + i)))) [0..<k]
      \<and> list_all (\<lambda>i. \<not> ctx_done (env (clock w + i))) [1..<Suc k]
      \<and> outcome (env (clock w + k)) = Responds resp)"

text \<open>The log entries of the first \<open>n\<close> passes of a logical request started in \<open>w\<close>, and
  the world after them.\<close>

definition passes ::
  "Client \<Rightarrow> 'r env \<Rightarrow> string \<Rightarrow> string \<Rightarrow> payload option \<Rightarrow> world \<Rightarrow> nat
     \<Rightarrow> sent_entry list" where
  "passes c env verb path body w n =
     map (\<lambda>i. \<lparr>attempt_no = i,
               waited = (if i > 0 then retry_delay i (rand_draw (env (clock w + i))) else 0),
               sent_req = new_request c verb path body\<rparr>) [0..<n]"

definition after ::
  "Client \<Rightarrow> 'r env \<Rightarrow> string \<Rightarrow> string \<Rightarrow> payload option \<Rightarrow> world \<Rightarrow> nat \<Rightarrow> world" where
  "after c env verb path body w n =
     \<lparr>clock = clock w + n, sent = sent w @ passes c env verb path body w n\<rparr>"

text \<open>What a successful response leaves in the result target.\<close>

definition decoded_result :: "bool \<Rightarrow> 'r response \<Rightarrow> 'r option" where
  "decoded_result want resp =
     (if want \<and> length (resp_Body resp) > 0 then resp_decoded resp else None)"

text \<open>A response on which \<open>doRequest\<close> returns without an error: its status is below
  400 and, when a result is wanted and the body is not empty, the body decodes.\<close>

definition succeeds :: "bool \<Rightarrow> 'r response \<Rightarrow> bool" where
  "succeeds want resp =
     (resp_StatusCode resp < 400
      \<and> (if want \<and> length (resp_Body resp) > 0 then resp_decoded resp \<noteq> None else True))"

section \<open>Package client: the accessors of checks and projects\<close>

definition GetCheck ::
  "Client \<Rightarrow> Check env \<Rightarrow> string \<Rightarrow> world \<Rightarrow> (error + Check) \<times> world" where
  "GetCheck c env ident w =
     (case doRequest c env ''GET'' (''/api/v1/checks/'' @ ident) None True w of
        (Inl err, w') \<Rightarrow> (Inl err, w')
      | (Inr res, w') \<Rightarrow>
          (let check = target zero_Check res
           in (Inr (check\<lparr>chk_Tags := normalizeTags (chk_Tags check)\<rparr>), w')))"

text \<open>The first lines of \<open>CreateCheck\<close> and of \<open>UpdateCheck\<close>: the request with its
  description and its tags normalised, which is the body that is marshalled and sent.\<close>

definition CreateCheck_normalize :: "CreateCheckRequest \<Rightarrow> CreateCheckRequest" where
  "CreateCheck_normalize req0 =
     (let req1 = req0\<lparr>ccr_Description := normalizeDescription (ccr_Description req0)\<rparr>
      in req1\<lparr>ccr_Tags := normalizeTags (ccr_Tags req1)\<rparr>)"

definition UpdateCheck_normalize :: "UpdateCheckRequest \<Rightarrow> UpdateCheckRequest" where
  "UpdateCheck_normalize req0 =
     (let req1 = req0\<lparr>ucr_Description := normalizeDescription (ucr_Description req0)\<rparr>
      in req1\<lparr>ucr_Tags := normalizeTags (ucr_Tags req1)\<rparr>)"

definition CreateCheck ::
  "Client \<Rightarrow> Check env \<Rightarrow> CreateCheckRequest \<Rightarrow> world \<Rightarrow> (error + Check) \<times> world" where
  "CreateCheck c env req0 w =
     (let req = CreateCheck_normalize req0
      in
      case doRequest c env ''POST'' ''/api/v1/checks''
             (Some (marshal_CreateCheckRequest req)) True w of
        (Inl err, w') \<Rightarrow>
          if IsConflict err then (Inl (ConflictError ''check''), w') else (Inl err, w')
      | (Inr res, w') \<Rightarrow> GetCheck c env (chk_ID (target zero_Check res)) w')"

definition UpdateCheck ::
  "Client \<Rightarrow> Check env \<Rightarrow> string \<Rightarrow> UpdateCheckRequest \<Rightarrow> world
     \<Rightarrow> (error + Check) \<times> world" where
  "UpdateCheck c env ident req0 w =
     (let req = UpdateCheck_normalize req0
      in
      case doRequest c env ''PUT'' (''/api/v1/checks/'' @ ident)
             (Some (marshal_UpdateCheckRequest req)) False w of
        (Inl err, w') \<Rightarrow> (Inl err, w')
      | (Inr res, w') \<Rightarrow> GetCheck c env ident w')"

definition DeleteCheck ::
  "Client \<Rightarrow> Check env \<Rightarrow> string \<Rightarrow> world \<Rightarrow> error option \<times> world" where
  "DeleteCheck c env ident w =
     (case doRequest c env ''DELETE'' (''/api/v1/checks/'' @ ident) None False w of
        (Inl err, w') \<Rightarrow> (Some err, w')
      | (Inr res, w') \<Rightarrow> (None, w'))"

definition GetProject ::
  "Client \<Rightarrow> Project env \<Rightarrow> string \<Rightarrow> world \<Rightarrow> (error + Project) \<times> world" where
  "GetProject c env ident w =
     (case doRequest c env ''GET'' (''/api/v1/projects/'' @ ident) None True w of
        (Inl err, w') \<Rightarrow> (Inl err, w')
      | (Inr res, w') \<Rightarrow> (Inr (target zero_Project res), w'))"

definition CreateProject ::
  "Client \<Rightarrow> Project env \<Rightarrow> string \<Rightarrow> string option \<Rightarrow> world
     \<Rightarrow> (error + Project) \<times> world" where
  "CreateProject c env name description w =
     (let req = \<lparr>cpr_OrgID = orgID c, cpr_Name = name,
                 cpr_Description = normalizeDescription description\<rparr>
      in
      case doRequest c env ''POST'' ''/api/v1/projects''
             (Some (marshal_CreateProjectRequest req)) True w of
        (Inl err, w') \<Rightarrow>
          if IsConflict err then (Inl (ConflictError ''project''), w') else (Inl err, w')
      | (Inr res, w') \<Rightarrow> GetProject c env (prj_ID (target zero_Project res)) w')"

definition UpdateProject ::
  "Client \<Rightarrow> Project env \<Rightarrow> string \<Rightarrow> string option \<Rightarrow> string option \<Rightarrow> world
     \<Rightarrow> (error + Project) \<times> world" where
  "UpdateProject c env ident name description w =
     (let req = \<lparr>upr_Name = name, upr_Description = normalizeDescription description\<rparr>
      in
      case doRequest c env ''PUT'' (''/api/v1/projects/'' @ ident)
             (Some (marshal_UpdateProjectRequest req)) False w of
        (Inl err, w') \<Rightarrow> (Inl err, w')
      | (Inr res, w') \<Rightarrow> GetProject c env ident w')"

definition DeleteProject ::
  "Client \<Rightarrow> Project env \<Rightarrow> string \<Rightarrow> world \<Rightarrow> error option \<times> world" where
  "DeleteProject c env ident w =
     (case doRequest c env ''DELETE'' (''/api/v1/projects/'' @ ident) None False w of
        (Inl err, w') \<Rightarrow> (Some err, w')
      | (Inr res, w') \<Rightarrow> (None, w'))"

section \<open>Values of the plugin framework\<close>

text \<open>
  An attribute value of the Terraform plugin framework (\<^verbatim>\<open>types.String\<close>,
  \<^verbatim>\<open>types.Int64\<close>, \<^verbatim>\<open>types.Bool\<close>, \<^verbatim>\<open>types.Set\<close>) is null, unknown or known.
  \<open>Equal\<close> on strings, integers and booleans compares the state and, when known, the
  value. Two sets are equal when they are in the same state and, when known, have the
  same number of elements and every element of the first is one of the second.
  \<^verbatim>\<open>ValueString\<close>, \<^verbatim>\<open>ValueInt64\<close> and \<^verbatim>\<open>ValueBool\<close> return the zero value for a
  value that is not known. \<^verbatim>\<open>ElementsAs(ctx, &tags, false)\<close> fills a slice from a known
  set, and reports an error for a null or unknown one.
\<close>

datatype 'a tfvalue = Null | Unknown | Known 'a

definition IsNull :: "'a tfvalue \<Rightarrow> bool" where
  "IsNull v = (case v of Null \<Rightarrow> True | Unknown \<Rightarrow> False | Known x \<Rightarrow> False)"

definition IsUnknown :: "'a tfvalue \<Rightarrow> bool" where
  "IsUnknown v = (case v of Null \<Rightarrow> False | Unknown \<Rightarrow> True | Known x \<Rightarrow> False)"

definition Equal :: "'a tfvalue \<Rightarrow> 'a tfvalue \<Rightarrow> bool" where
  "Equal v other = (v = other)"

definition SetEqual :: "string list tfvalue \<Rightarrow> string list tfvalue \<Rightarrow> bool" where
  "SetEqual s other =
     (case s of
        Null \<Rightarrow> IsNull other
      | Unknown \<Rightarrow> IsUnknown other
      | Known xs \<Rightarrow>
          (case other of
             Null \<Rightarrow> False
           | Unknown \<Rightarrow> False
           | Known ys \<Rightarrow> length xs = length ys \<and> list_all (\<lambda>e. e \<in> set ys) xs))"

definition ValueString :: "string tfvalue \<Rightarrow> string" where
  "ValueString v = (case v of Null \<Rightarrow> [] | Unknown \<Rightarrow> [] | Known s \<Rightarrow> s)"

definition ValueInt64 :: "int tfvalue \<Rightarrow> int" where
  "ValueInt64 v = (case v of Null \<Rightarrow> 0 | Unknown \<Rightarrow> 0 | Known i \<Rightarrow> i)"

definition ValueBool :: "bool tfvalue \<Rightarrow> bool" where
  "ValueBool v = (case v of Null \<Rightarrow> False | Unknown \<Rightarrow> False | Known b \<Rightarrow> b)"

text \<open>An error diagnostic: its summary, its detail, and the error whose text
  (\<^verbatim>\<open>err.Error()\<close>) the provider appends to the detail, if any.\<close>

datatype diagnostic = Diagnostic string string "error option"

definition ElementsAs :: "string list tfvalue \<Rightarrow> diagnostic + strslice" where
  "ElementsAs s =
     (case s of
        Null \<Rightarrow> Inl (Diagnostic ''Value Conversion Error'' ''unhandled null value'' None)
      | Unknown \<Rightarrow> Inl (Diagnostic ''Value Conversion Error'' ''unhandled unknown value'' None)
      | Known xs \<Rightarrow> Inr (Some xs))"

text \<open>
  What an operation of a resource hands back: the state it leaves (\<open>None\<close> when the
  resource is not, or no longer, in the tracked state) and the error diagnostics it
  added. \<open>Read\<close> and \<open>Update\<close> start from the prior state, \<open>Create\<close> from no state.
  An operation is given the plan and the prior state as the framework has decoded them
  into the resource's model struct (\<^verbatim>\<open>req.Plan.Get\<close>, \<^verbatim>\<open>req.State.Get\<close>), and the
  state it leaves is the model it passes to \<^verbatim>\<open>resp.State.Set\<close>; the elements of a set
  of tags are known strings.
\<close>

record 'm tfresponse =
  State :: "'m option"
  Diagnostics :: "diagnostic list"

section \<open>Package project: ProjectResource\<close>

record ProjectResourceModel =
  prm_ID :: "string tfvalue"
  prm_Name :: "string tfvalue"
  prm_Description :: "string tfvalue"
  prm_OrgID :: "string tfvalue"
  prm_CreatedAt :: "string tfvalue"
  prm_UpdatedAt :: "string tfvalue"

text \<open>The block "Map response to model", which \<open>Create\<close>, \<open>Read\<close> and \<open>Update\<close> each
  carry in the same words.\<close>

definition mapProjectToModel :: "Project \<Rightarrow> ProjectResourceModel \<Rightarrow> ProjectResourceModel" where
  "mapProjectToModel project data =
     data\<lparr>prm_ID := Known (prj_ID project),
          prm_OrgID := Known (prj_OrgID project),
          prm_Name := Known (prj_Name project),
          prm_Description :=
            (case prj_Description project of
               Some d \<Rightarrow> Known d
             | None \<Rightarrow> Null),
          prm_CreatedAt := Known (prj_CreatedAt project),
          prm_UpdatedAt := Known (prj_UpdatedAt project)\<rparr>"



definition ProjectResource_Update ::
  "Client \<Rightarrow> Project env \<Rightarrow> ProjectResourceModel \<Rightarrow> ProjectResourceModel \<Rightarrow> world
     \<Rightarrow> ProjectResourceModel tfresponse \<times> world" where
  "ProjectResource_Update c env data state w =
     (let name =
            (if \<not> Equal (prm_Name data) (prm_Name state)
             then Some (ValueString (prm_Name data))
             else None);
          description =
            (if \<not> Equal (prm_Description data) (prm_Description state)
             then (if IsNull (prm_Description data)
                   then Some []
                   else Some (ValueString (prm_Description data)))
             else None)
      in
      case UpdateProject c env (ValueString (prm_ID state)) name description w of
        (Inl err, w') \<Rightarrow>
          (\<lparr>State = Some state,
            Diagnostics = [Diagnostic ''Error Updating Project''
              ''Could not update project, unexpected error: '' (Some err)]\<rparr>, w')
      | (Inr project, w') \<Rightarrow>
          (\<lparr>State = Some (mapProjectToModel project data), Diagnostics = []\<rparr>, w'))"


section \<open>Package check: CheckResource\<close>

record CheckResourceModel =
  crm_ID :: "string tfvalue"
  crm_ProjectID :: "string tfvalue"
  crm_Name :: "string tfvalue"
  crm_Slug :: "string tfvalue"
  crm_PeriodSeconds :: "int tfvalue"
  crm_GraceSeconds :: "int tfvalue"
  crm_Description :: "string tfvalue"
  crm_Tags :: "string list tfvalue"
  crm_Paused :: "bool tfvalue"
  crm_PublicID :: "string tfvalue"
  crm_PingURL :: "string tfvalue"
  crm_Status :: "string tfvalue"
  crm_CreatedAt :: "string tfvalue"

definition mapCheckToModel :: "Client \<Rightarrow> Check \<Rightarrow> CheckResourceModel \<Rightarrow> CheckResourceModel" where
  "mapCheckToModel c check data =
     data\<lparr>crm_ID := Known (chk_ID check),
          crm_ProjectID := Known (chk_ProjectID check),
          crm_Name := Known (chk_Name check),
          crm_Slug := Known (chk_Slug check),
          crm_PeriodSeconds := Known (chk_PeriodSeconds check),
          crm_GraceSeconds := Known (chk_GraceSeconds check),
          crm_Paused := Known (chk_Paused check),
          crm_PublicID := Known (chk_PublicID check),
          crm_Status := Known (chk_Status check),
          crm_CreatedAt := Known (chk_CreatedAt check),
          crm_PingURL := Known (pingURLBase c @ ''/'' @ chk_PublicID check),
          crm_Description :=
            (case chk_Description check of
               Some d \<Rightarrow> Known d
             | None \<Rightarrow> Null),
          crm_Tags :=
            (if len (chk_Tags check) > 0
             then (case chk_Tags check of Some ts \<Rightarrow> Known ts | None \<Rightarrow> Null)
             else Null)\<rparr>"

text \<open>The request that \<open>Create\<close> builds from the plan, or the diagnostic it stops with.\<close>

definition CheckResource_createReq :: "CheckResourceModel \<Rightarrow> diagnostic + CreateCheckRequest" where
  "CheckResource_createReq data =
     (let createReq0 =
            \<lparr>ccr_ProjectID = ValueString (crm_ProjectID data),
             ccr_Name = ValueString (crm_Name data),
             ccr_Slug = ValueString (crm_Slug data),
             ccr_PeriodSeconds = ValueInt64 (crm_PeriodSeconds data),
             ccr_GraceSeconds = ValueInt64 (crm_GraceSeconds data),
             ccr_Description = None,
             ccr_Tags = None,
             ccr_Paused = ValueBool (crm_Paused data)\<rparr>;
          createReq =
            (if \<not> IsNull (crm_Description data) \<and> \<not> IsUnknown (crm_Description data)
             then createReq0\<lparr>ccr_Description := Some (ValueString (crm_Description data))\<rparr>
             else createReq0)
      in
      if \<not> IsNull (crm_Tags data) \<and> \<not> IsUnknown (crm_Tags data) then
        (case ElementsAs (crm_Tags data) of
           Inl d \<Rightarrow> Inl d
         | Inr tags \<Rightarrow> Inr (createReq\<lparr>ccr_Tags := tags\<rparr>))
      else Inr createReq)"

definition CheckResource_Create ::
  "Client \<Rightarrow> Check env \<Rightarrow> CheckResourceModel \<Rightarrow> world
     \<Rightarrow> CheckResourceModel tfresponse \<times> world" where
  "CheckResource_Create c env data w =
     (case CheckResource_createReq data of
        Inl d \<Rightarrow> (\<lparr>State = None, Diagnostics = [d]\<rparr>, w)
      | Inr createReq \<Rightarrow>
          (case CreateCheck c env createReq w of
             (Inl err, w') \<Rightarrow>
               (\<lparr>State = None,
                 Diagnostics = [Diagnostic ''Error Creating Check''
                   ''Could not create check, unexpected error: '' (Some err)]\<rparr>, w')
           | (Inr check, w') \<Rightarrow>
               (\<lparr>State = Some (mapCheckToModel c check data), Diagnostics = []\<rparr>, w')))"

definition CheckResource_Read ::
  "Client \<Rightarrow> Check env \<Rightarrow> CheckResourceModel \<Rightarrow> world
     \<Rightarrow> CheckResourceModel tfresponse \<times> world" where
  "CheckResource_Read c env data w =
     (case GetCheck c env (ValueString (crm_ID data)) w of
        (Inl err, w') \<Rightarrow>
          if IsNotFound err then (\<lparr>State = None, Diagnostics = []\<rparr>, w')
          else
            (\<lparr>State = Some data,
              Diagnostics = [Diagnostic ''Error Reading Check''
                (''Could not read check ID '' @ ValueString (crm_ID data) @ '': '')
                (Some err)]\<rparr>, w')
      | (Inr check, w') \<Rightarrow>
          (\<lparr>State = Some (mapCheckToModel c check data), Diagnostics = []\<rparr>, w'))"

text \<open>The request that \<open>Update\<close> builds from the plan and the prior state ("only changed
  fields"), or the diagnostic it stops with.\<close>

definition CheckResource_updateReq ::
  "CheckResourceModel \<Rightarrow> CheckResourceModel \<Rightarrow> diagnostic + UpdateCheckRequest" where
  "CheckResource_updateReq data state =
     (let r0 = \<lparr>ucr_Name = None, ucr_PeriodSeconds = None, ucr_GraceSeconds = None,
                ucr_Description = None, ucr_Tags = None, ucr_Paused = None\<rparr>;
          r1 = (if \<not> Equal (crm_Name data) (crm_Name state)
                then r0\<lparr>ucr_Name := Some (ValueString (crm_Name data))\<rparr> else r0);
          r2 = (if \<not> Equal (crm_PeriodSeconds data) (crm_PeriodSeconds state)
                then r1\<lparr>ucr_PeriodSeconds := Some (ValueInt64 (crm_PeriodSeconds data))\<rparr>
                else r1);
          r3 = (if \<not> Equal (crm_GraceSeconds data) (crm_GraceSeconds state)
                then r2\<lparr>ucr_GraceSeconds := Some (ValueInt64 (crm_GraceSeconds data))\<rparr>
                else r2);
          r4 = (if \<not> Equal (crm_Description data) (crm_Description state)
                then (if IsNull (crm_Description data)
                      then r3\<lparr>ucr_Description := Some []\<rparr>
                      else r3\<lparr>ucr_Description := Some (ValueString (crm_Description data))\<rparr>)
                else r3);
          paused = (\<lambda>r. if \<not> Equal (crm_Paused data) (crm_Paused state)
                        then r\<lparr>ucr_Paused := Some (ValueBool (crm_Paused data))\<rparr> else r)
      in
      if \<not> SetEqual (crm_Tags data) (crm_Tags state) then
        (if \<not> IsNull (crm_Tags data) then
           (case ElementsAs (crm_Tags data) of
              Inl d \<Rightarrow> Inl d
            | Inr tags \<Rightarrow> Inr (paused (r4\<lparr>ucr_Tags := tags\<rparr>)))
         else Inr (paused (r4\<lparr>ucr_Tags := None\<rparr>)))
      else Inr (paused r4))"

definition CheckResource_Update ::
  "Client \<Rightarrow> Check env \<Rightarrow> CheckResourceModel \<Rightarrow> CheckResourceModel \<Rightarrow> world
     \<Rightarrow> CheckResourceModel tfresponse \<times> world" where
  "CheckResource_Update c env data state w =
     (case CheckResource_updateReq data state of
        Inl d \<Rightarrow> (\<lparr>State = Some state, Diagnostics = [d]\<rparr>, w)
      | Inr updateReq \<Rightarrow>
          (case UpdateCheck c env (ValueString (crm_ID state)) updateReq w of
             (Inl err, w') \<Rightarrow>
               (\<lparr>State = Some state,
                 Diagnostics = [Diagnostic ''Error Updating Check''
                   ''Could not update check, unexpected error: '' (Some err)]\<rparr>, w')
           | (Inr check, w') \<Rightarrow>
               (\<lparr>State = Some (mapCheckToModel c check data), Diagnostics = []\<rparr>, w')))"



section \<open>normalizeTags on a store of arrays\<close>

text \<open>
  To speak of which memory \<open>normalizeTags\<close> writes, slices are modelled as Go has them: a
  store holds the arrays of strings, array \<open>a\<close> being \<open>h ! a\<close>; a slice value is nil
  (\<open>None\<close>) or the window of \<open>sl_len\<close> cells of array \<open>sl_array\<close> that starts at cell
  \<open>sl_off\<close>. \<^verbatim>\<open>make\<close> and a composite literal allocate a new array at the end of the
  store; \<^verbatim>\<open>copy\<close> and \<^verbatim>\<open>sort.Strings\<close> write the cells of the window they are given,
  and no other cell.
\<close>

type_synonym store = "string list list"

record slice_hdr =
  sl_array :: nat
  sl_off :: nat
  sl_len :: nat

definition valid_slice :: "store \<Rightarrow> slice_hdr \<Rightarrow> bool" where
  "valid_slice h s =
     (sl_array s < length h \<and> sl_off s + sl_len s \<le> length (h ! sl_array s))"

definition elems :: "store \<Rightarrow> slice_hdr \<Rightarrow> string list" where
  "elems h s = take (sl_len s) (drop (sl_off s) (h ! sl_array s))"

definition make_strings :: "store \<Rightarrow> nat \<Rightarrow> store \<times> slice_hdr" where
  "make_strings h n =
     (h @ [replicate n []], \<lparr>sl_array = length h, sl_off = 0, sl_len = n\<rparr>)"

definition write_window :: "store \<Rightarrow> slice_hdr \<Rightarrow> string list \<Rightarrow> store" where
  "write_window h s xs =
     h[sl_array s :=
         take (sl_off s) (h ! sl_array s) @ xs
         @ drop (sl_off s + length xs) (h ! sl_array s)]"

definition copy_strings :: "store \<Rightarrow> slice_hdr \<Rightarrow> slice_hdr \<Rightarrow> store" where
  "copy_strings h dst src =
     write_window h dst (take (min (sl_len dst) (sl_len src)) (elems h src))"

definition sort_Strings :: "store \<Rightarrow> slice_hdr \<Rightarrow> store" where
  "sort_Strings h s = write_window h s (sort (elems h s))"

definition normalizeTags_store :: "store \<Rightarrow> slice_hdr option \<Rightarrow> store \<times> slice_hdr option" where
  "normalizeTags_store h tags =
     (case tags of
        None \<Rightarrow> (case make_strings h 0 of (h1, fresh) \<Rightarrow> (h1, Some fresh))
      | Some t \<Rightarrow>
          (case make_strings h (sl_len t) of
             (h1, sorted') \<Rightarrow>
               (let h2 = copy_strings h1 sorted' t;
                    h3 = sort_Strings h2 sorted'
                in (h3, Some sorted'))))"

section \<open>Example runs\<close>

text \<open>A client, an empty world, and environments in which the server always answers
  503, the connection always fails, and two 503 are followed by a 200.\<close>

definition example_client :: Client where
  "example_client =
     \<lparr>baseURL = ''https://api.pakyas.com'', apiKey = ''secret'',
      userAgent = ''terraform-provider-pakyas/test'', orgID = ''org-1'',
      pingURLBase = ''https://ping.pakyas.com''\<rparr>"

definition world0 :: world where
  "world0 = \<lparr>clock = 0, sent = []\<rparr>"

definition respond :: "int \<Rightarrow> string \<Rightarrow> 'r option \<Rightarrow> 'r tick" where
  "respond status body v =
     \<lparr>ctx_done = False, rand_draw = 0,
      outcome = Responds \<lparr>resp_StatusCode = status, resp_Body = body,
                          resp_errResp = None, resp_decoded = v\<rparr>\<rparr>"

definition env_unavailable :: "'r env" where
  "env_unavailable = (\<lambda>n. respond 503 ''busy'' None)"

definition env_down :: "'r env" where
  "env_down = (\<lambda>n. \<lparr>ctx_done = False, rand_draw = 0, outcome = DoFails ''connection refused''\<rparr>)"

definition env_flaky :: "'r env" where
  "env_flaky =
     (\<lambda>n. if n = 0 then respond 503 ''busy'' None
          else if n = 1 then (respond 503 ''busy'' None)\<lparr>rand_draw := 123456789\<rparr>
          else (respond 200 [] None)\<lparr>rand_draw := 999999999999\<rparr>)"


definition env_conflict :: "'r env" where
  "env_conflict = (\<lambda>n. respond 409 ''slug already taken'' None)"


definition example_create :: CreateCheckRequest where
  "example_create =
     \<lparr>ccr_ProjectID = ''p1'', ccr_Name = ''Daily Backup'', ccr_Slug = ''daily-backup'',
      ccr_PeriodSeconds = 86400, ccr_GraceSeconds = 3600, ccr_Description = Some [],
      ccr_Tags = Some [''database'', ''backup''], ccr_Paused = False\<rparr>"

definition example_update :: UpdateCheckRequest where
  "example_update =
     \<lparr>ucr_Name = None, ucr_PeriodSeconds = None, ucr_GraceSeconds = None,
      ucr_Description = None, ucr_Tags = None, ucr_Paused = Some True\<rparr>"


definition example_project_state :: ProjectResourceModel where
  "example_project_state =
     \<lparr>prm_ID = Known ''p1'', prm_Name = Known ''Production'',
      prm_Description = Known ''old text'', prm_OrgID = Known ''org-1'',
      prm_CreatedAt = Known ''2024-01-01T00:00:00Z'',
      prm_UpdatedAt = Known ''2024-01-02T00:00:00Z''\<rparr>"

definition example_check_state :: CheckResourceModel where
  "example_check_state =
     \<lparr>crm_ID = Known ''c1'', crm_ProjectID = Known ''p1'', crm_Name = Known ''Daily Backup'',
      crm_Slug = Known ''daily-backup'', crm_PeriodSeconds = Known 86400,
      crm_GraceSeconds = Known 3600, crm_Description = Known ''old text'',
      crm_Tags = Known [''backup'', ''database''], crm_Paused = Known False,
      crm_PublicID = Known ''pub1'', crm_PingURL = Known ''https://ping.pakyas.com/pub1'',
      crm_Status = Known ''up'', crm_CreatedAt = Known ''2024-01-01T00:00:00Z''\<rparr>"


definition example_check :: Check where
  "example_check =
     \<lparr>chk_ID = ''c1'', chk_ProjectID = ''p1'', chk_Name = ''Daily Backup'',
      chk_Slug = ''daily-backup'', chk_PeriodSeconds = 86400, chk_GraceSeconds = 3600,
      chk_Description = None, chk_Tags = Some [''database'', ''backup''], chk_Paused = False,
      chk_PublicID = ''pub1'', chk_Status = ''new'',
      chk_CreatedAt = ''2024-01-01T00:00:00Z'', chk_DeletedAt = None\<rparr>"

text \<open>A server whose answer to the write names the check but lacks the fields the server
  fills in, and whose answer to any later request is the whole check.\<close>

definition env_created :: "Check env" where
  "env_created =
     (\<lambda>n. if n = 0
          then respond 201 ''{...}''
                 (Some (zero_Check\<lparr>chk_ID := ''c1'', chk_Name := ''Daily Backup''\<rparr>))
          else respond 200 ''{...}'' (Some example_check))"


definition example_project :: Project where
  "example_project =
     \<lparr>prj_ID = ''p1'', prj_OrgID = ''org-1'', prj_Name = ''Production'',
      prj_Description = Some ''old text'', prj_CreatedAt = ''2024-01-01T00:00:00Z'',
      prj_UpdatedAt = ''2024-01-02T00:00:00Z'', prj_ArchivedAt = None\<rparr>"

text \<open>Servers that answer every request with 200 and the resource as it stands.\<close>

definition env_project :: "Project env" where
  "env_project = (\<lambda>n. respond 200 ''{...}'' (Some example_project))"

definition env_check :: "Check env" where
  "env_check = (\<lambda>n. respond 200 ''{...}'' (Some example_check))"



text \<open>The same for a project: the answer to the write carries the identifier only.\<close>

definition env_project_written :: "Project env" where
  "env_project_written =
     (\<lambda>n. if n = 0
          then respond 201 ''{...}'' (Some (zero_Project\<lparr>prj_ID := ''p1''\<rparr>))
          else respond 200 ''{...}'' (Some example_project))"

section \<open>Properties of the normalisers\<close>

lemma normalizeTags_not_nil: "normalizeTags tags \<noteq> None"
  by (simp add: normalizeTags_def split: option.split)

lemma normalizeTags_sorted: "normalizeTags tags = Some ys \<Longrightarrow> sorted ys"
  by (auto simp: normalizeTags_def split: option.splits)

text \<open>
  Claim C9. \<open>normalizeTags\<close> is idempotent on every tag slice, and both the nil slice
  and the empty slice are sent to the empty slice \<open>Some []\<close>, never to nil (\<open>None\<close>).
\<close>

theorem normalizeTags_idempotent:
  "normalizeTags (normalizeTags T) = normalizeTags T
   \<and> normalizeTags None = Some []
   \<and> normalizeTags (Some []) = Some []"
proof -
  have idem: "normalizeTags (normalizeTags T) = normalizeTags T"
  proof (cases T)
    case None
    then show ?thesis by (simp add: normalizeTags_def)
  next
    case (Some xs)
    have "sort (sort xs) = sort xs"
      by (rule sorted_sort_id) (rule sorted_sort)
    with Some show ?thesis by (simp add: normalizeTags_def)
  qed
  have nil: "normalizeTags None = Some []"
    by (simp add: normalizeTags_def)
  have emp: "normalizeTags (Some []) = Some []"
    by (simp add: normalizeTags_def)
  from idem nil emp show ?thesis by simp
qed

section \<open>The transport layer: one logical request\<close>

lemma retry_delay_bounds:
  assumes "1 \<le> attempt"
  shows "BaseRetryDelay * 2 ^ (attempt - 1) \<le> retry_delay attempt draw"
    and "2 * retry_delay attempt draw < 3 * (BaseRetryDelay * 2 ^ (attempt - 1))"
proof -
  define h :: int where "h = 500000000 * 2 ^ (attempt - 1)"
  define j where "j = draw mod h"
  have hpos: "0 < h" by (simp add: h_def)
  have b: "backoff attempt = 2 * h"
    by (simp add: backoff_def BaseRetryDelay_def h_def)
  have j0: "0 \<le> j" and j1: "j < h"
    using hpos by (simp_all add: j_def)
  have rd: "retry_delay attempt draw = 2 * h + j"
    by (simp add: retry_delay_def Int63n_def b Let_def j_def)
  have bb: "BaseRetryDelay * 2 ^ (attempt - 1) = 2 * h"
    by (simp add: BaseRetryDelay_def h_def)
  show "BaseRetryDelay * 2 ^ (attempt - 1) \<le> retry_delay attempt draw"
    unfolding rd bb using j0 by simp
  show "2 * retry_delay attempt draw < 3 * (BaseRetryDelay * 2 ^ (attempt - 1))"
    unfolding rd bb using j1 by simp
qed

lemma attempt_log:
  assumes "doRequest_attempt c t verb path body want attempt = (res, log)"
  shows "log = [] \<or> log = [\<lparr>attempt_no = attempt,
            waited = (if attempt > 0 then retry_delay attempt (rand_draw t) else 0),
            sent_req = new_request c verb path body\<rparr>]"
  using assms
  by (auto simp: doRequest_attempt_def Let_def split: if_splits outcome.splits option.splits)

lemma attempt_Continue_log:
  assumes "doRequest_attempt c t verb path body want attempt = (Continue e, log)"
  shows "log = [\<lparr>attempt_no = attempt,
            waited = (if attempt > 0 then retry_delay attempt (rand_draw t) else 0),
            sent_req = new_request c verb path body\<rparr>]"
  using assms
  by (auto simp: doRequest_attempt_def Let_def split: if_splits outcome.splits option.splits)


lemma passes_Suc:
  "passes c env verb path body w (Suc n) =
     passes c env verb path body w n @
       [\<lparr>attempt_no = n,
         waited = (if n > 0 then retry_delay n (rand_draw (env (clock w + n))) else 0),
         sent_req = new_request c verb path body\<rparr>]"
  by (simp add: passes_def)

lemma passes_0: "passes c env verb path body w 0 = []"
  by (simp add: passes_def)

lemma length_passes: "length (passes c env verb path body w n) = n"
  by (simp add: passes_def)

lemma loop_exit:
  assumes "\<not> attempt \<le> MaxRetries"
  shows "doRequest_loop c env verb path body want attempt lastErr w =
           (case lastErr of
              Some err \<Rightarrow> (Inl (Wrapf ''max retries exceeded'' err), w)
            | None \<Rightarrow> (Inl (Errorf ''max retries exceeded: %!w(<nil>)''), w))"
  using assms by (subst doRequest_loop.simps) simp

lemma loop_Return:
  assumes "attempt \<le> MaxRetries"
    and "doRequest_attempt c (env (clock w)) verb path body want attempt = (Return r, log)"
  shows "doRequest_loop c env verb path body want attempt lastErr w =
           (r, \<lparr>clock = Suc (clock w), sent = sent w @ log\<rparr>)"
  using assms by (subst doRequest_loop.simps) simp

lemma loop_Continue:
  assumes "attempt \<le> MaxRetries"
    and "doRequest_attempt c (env (clock w)) verb path body want attempt = (Continue e, log)"
  shows "doRequest_loop c env verb path body want attempt lastErr w =
           doRequest_loop c env verb path body want (Suc attempt) (Some e)
             \<lparr>clock = Suc (clock w), sent = sent w @ log\<rparr>"
  using assms by (subst doRequest_loop.simps) simp

lemma loop_log:
  assumes "doRequest_loop c env verb path body want attempt lastErr wc = (r, w')"
    and "clock wc = clock w + attempt"
    and "sent wc = sent w @ passes c env verb path body w attempt"
    and "attempt \<le> Suc MaxRetries"
  shows "\<exists>n. n \<le> Suc MaxRetries \<and> sent w' = sent w @ passes c env verb path body w n"
  using assms
proof (induction c env verb path body want attempt lastErr wc rule: doRequest_loop.induct)
  case (1 c env verb path body want attempt lastErr wc)
  show ?case
  proof (cases "attempt \<le> MaxRetries")
    case False
    with "1.prems"(1) have "w' = wc"
      by (simp add: loop_exit split: option.splits)
    with "1.prems" show ?thesis by blast
  next
    case True
    obtain x log where att:
      "doRequest_attempt c (env (clock wc)) verb path body want attempt = (x, log)"
      by force
    let ?entry = "\<lparr>attempt_no = attempt,
         waited = (if attempt > 0 then retry_delay attempt (rand_draw (env (clock wc))) else 0),
         sent_req = new_request c verb path body\<rparr>"
    have suc: "sent wc @ [?entry] = sent w @ passes c env verb path body w (Suc attempt)"
      using "1.prems"(2,3) by (simp add: passes_Suc)
    show ?thesis
    proof (cases x)
      case (Return res)
      with True att "1.prems"(1)
      have w': "w' = \<lparr>clock = Suc (clock wc), sent = sent wc @ log\<rparr>"
        by (simp add: loop_Return)
      from attempt_log[OF att] show ?thesis
      proof
        assume "log = []"
        with w' "1.prems"(3,4) show ?thesis by auto
      next
        assume "log = [?entry]"
        with w' suc True have "sent w' = sent w @ passes c env verb path body w (Suc attempt)"
          by simp
        with True show ?thesis by (metis Suc_le_mono)
      qed
    next
      case (Continue e)
      with att have log: "log = [?entry]"
        by (simp add: attempt_Continue_log)
      from Continue att True "1.prems"(1)
      have run: "doRequest_loop c env verb path body want (Suc attempt) (Some e)
                   \<lparr>clock = Suc (clock wc), sent = sent wc @ log\<rparr> = (r, w')"
        by (simp add: loop_Continue)
      show ?thesis
      proof (rule "1.IH"[OF True att[symmetric] _ run])
        show "x = Continue e" by (rule Continue)
        show "clock \<lparr>clock = Suc (clock wc), sent = sent wc @ log\<rparr> = clock w + Suc attempt"
          using "1.prems"(2) by simp
        show "sent \<lparr>clock = Suc (clock wc), sent = sent wc @ log\<rparr> =
                sent w @ passes c env verb path body w (Suc attempt)"
          using suc log by simp
        show "Suc attempt \<le> Suc MaxRetries" using True by simp
      qed
    qed
  qed
qed


lemma IsRetryable_api_error:
  "IsRetryable (api_error resp) \<longleftrightarrow>
     resp_StatusCode resp = 429 \<or> resp_StatusCode resp \<ge> 500"
  by (simp add: IsRetryable_def api_error_def StatusTooManyRequests_def)

lemma IsConflict_api_error:
  "IsConflict (api_error resp) \<longleftrightarrow> resp_StatusCode resp = 409"
  by (simp add: IsConflict_def api_error_def StatusConflict_def)


lemma after_Suc:
  "\<lparr>clock = Suc (clock (after c env verb path body w k)),
    sent = sent (after c env verb path body w k) @
      [\<lparr>attempt_no = k,
        waited = (if k > 0 then retry_delay k (rand_draw (env (clock w + k))) else 0),
        sent_req = new_request c verb path body\<rparr>]\<rparr> =
   after c env verb path body w (Suc k)"
  by (simp add: after_def passes_Suc)

lemma transient_Continue:
  assumes "transient (outcome t)" and "attempt < MaxRetries"
    and "attempt = 0 \<or> \<not> ctx_done t"
  shows "\<exists>e. doRequest_attempt c t verb path body want attempt =
           (Continue e,
            [\<lparr>attempt_no = attempt,
              waited = (if attempt > 0 then retry_delay attempt (rand_draw t) else 0),
              sent_req = new_request c verb path body\<rparr>])"
proof (cases "outcome t")
  case (NewRequestFails m)
  with assms(1) show ?thesis by (simp add: transient_def)
next
  case (DoFails m)
  with assms(3) show ?thesis by (auto simp: doRequest_attempt_def Let_def)
next
  case (ReadAllFails m)
  with assms(3) show ?thesis by (auto simp: doRequest_attempt_def Let_def)
next
  case (Responds resp)
  with assms(1) have st: "resp_StatusCode resp = 429 \<or> resp_StatusCode resp \<ge> 500"
    by (simp add: transient_def)
  then have "resp_StatusCode resp \<ge> 400" by auto
  with st Responds assms(2,3) show ?thesis
    by (auto simp: doRequest_attempt_def Let_def IsRetryable_api_error)
qed

lemma loop_prefix:
  assumes "k \<le> MaxRetries"
    and "list_all (\<lambda>i. transient (outcome (env (clock w + i)))) [0..<k]"
    and "list_all (\<lambda>i. \<not> ctx_done (env (clock w + i))) [1..<k]"
  shows "\<exists>lastErr. doRequest_loop c env verb path body want 0 None w =
           doRequest_loop c env verb path body want k lastErr
             (after c env verb path body w k)"
  using assms
proof (induction k)
  case 0
  have "after c env verb path body w 0 = w"
    by (simp add: after_def passes_0)
  then show ?case by auto
next
  case (Suc k)
  from Suc.prems have k: "k \<le> MaxRetries" "k < MaxRetries" by simp_all
  from Suc.prems(2) have tr: "transient (outcome (env (clock w + k)))"
    and trs: "list_all (\<lambda>i. transient (outcome (env (clock w + i)))) [0..<k]"
    by simp_all
  from Suc.prems(3) have ctx: "k = 0 \<or> \<not> ctx_done (env (clock w + k))"
    and ctxs: "list_all (\<lambda>i. \<not> ctx_done (env (clock w + i))) [1..<k]"
    by (auto simp: list_all_iff)
  from Suc.IH[OF k(1) trs ctxs] obtain lastErr where
    pre: "doRequest_loop c env verb path body want 0 None w =
            doRequest_loop c env verb path body want k lastErr
              (after c env verb path body w k)"
    by blast
  have ck: "clock (after c env verb path body w k) = clock w + k"
    by (simp add: after_def)
  from transient_Continue[OF tr k(2) ctx, of c verb path body want] obtain e where
    att: "doRequest_attempt c (env (clock (after c env verb path body w k)))
            verb path body want k =
          (Continue e,
            [\<lparr>attempt_no = k,
              waited = (if k > 0 then retry_delay k (rand_draw (env (clock w + k))) else 0),
              sent_req = new_request c verb path body\<rparr>])"
    unfolding ck by blast
  have "doRequest_loop c env verb path body want k lastErr
          (after c env verb path body w k) =
        doRequest_loop c env verb path body want (Suc k) (Some e)
          (after c env verb path body w (Suc k))"
    by (simp only: loop_Continue[where env=env and w="after c env verb path body w k", OF k(1) att] after_Suc)
  with pre show ?case by metis
qed

lemma answered_prefix:
  assumes "answered env w k resp"
  shows "k \<le> MaxRetries"
    and "list_all (\<lambda>i. transient (outcome (env (clock w + i)))) [0..<k]"
    and "list_all (\<lambda>i. \<not> ctx_done (env (clock w + i))) [1..<k]"
    and "k = 0 \<or> \<not> ctx_done (env (clock w + k))"
    and "outcome (env (clock w + k)) = Responds resp"
  using assms by (auto simp: answered_def list_all_iff)

lemma doRequest_answered_error:
  assumes ans: "answered env w k resp"
    and st: "resp_StatusCode resp \<ge> 400"
    and fin: "k = MaxRetries \<or> \<not> (resp_StatusCode resp = 429 \<or> resp_StatusCode resp \<ge> 500)"
  shows "doRequest c env verb path body want w =
           (Inl (api_error resp), after c env verb path body w (Suc k))"
proof -
  note a = answered_prefix[OF ans]
  from loop_prefix[OF a(1,2,3), of c verb path body want] obtain lastErr where
    pre: "doRequest_loop c env verb path body want 0 None w =
            doRequest_loop c env verb path body want k lastErr
              (after c env verb path body w k)"
    by blast
  have ck: "clock (after c env verb path body w k) = clock w + k"
    by (simp add: after_def)
  have att: "doRequest_attempt c (env (clock (after c env verb path body w k)))
            verb path body want k =
          (Return (Inl (api_error resp)),
            [\<lparr>attempt_no = k,
              waited = (if k > 0 then retry_delay k (rand_draw (env (clock w + k))) else 0),
              sent_req = new_request c verb path body\<rparr>])"
    unfolding ck using a(4,5) st fin
    by (auto simp: doRequest_attempt_def Let_def IsRetryable_api_error)
  show ?thesis
    unfolding doRequest_def pre
    by (simp only: loop_Return[where env=env and w="after c env verb path body w k", OF a(1) att] after_Suc)
qed

lemma doRequest_answered_ok:
  assumes ans: "answered env w k resp"
    and st: "resp_StatusCode resp < 400"
    and dec: "want \<and> length (resp_Body resp) > 0 \<longrightarrow> resp_decoded resp \<noteq> None"
  shows "doRequest c env verb path body want w =
           (Inr (decoded_result want resp), after c env verb path body w (Suc k))"
proof -
  note a = answered_prefix[OF ans]
  from loop_prefix[OF a(1,2,3), of c verb path body want] obtain lastErr where
    pre: "doRequest_loop c env verb path body want 0 None w =
            doRequest_loop c env verb path body want k lastErr
              (after c env verb path body w k)"
    by blast
  have ck: "clock (after c env verb path body w k) = clock w + k"
    by (simp add: after_def)
  have att: "doRequest_attempt c (env (clock (after c env verb path body w k)))
            verb path body want k =
          (Return (Inr (decoded_result want resp)),
            [\<lparr>attempt_no = k,
              waited = (if k > 0 then retry_delay k (rand_draw (env (clock w + k))) else 0),
              sent_req = new_request c verb path body\<rparr>])"
    unfolding ck using a(4,5) st dec
    by (auto simp: doRequest_attempt_def Let_def decoded_result_def)
  show ?thesis
    unfolding doRequest_def pre
    by (simp only: loop_Return[where env=env and w="after c env verb path body w k", OF a(1) att] after_Suc)
qed


lemma attempt_Return_ok:
  assumes "doRequest_attempt c t verb path body want attempt = (Return (Inr r), log)"
  shows "\<exists>resp. outcome t = Responds resp \<and> resp_StatusCode resp < 400
           \<and> (attempt = 0 \<or> \<not> ctx_done t)
           \<and> r = decoded_result want resp
           \<and> (want \<and> length (resp_Body resp) > 0 \<longrightarrow> resp_decoded resp \<noteq> None)"
proof -
  from assms obtain resp where resp: "outcome t = Responds resp"
    by (auto simp: doRequest_attempt_def Let_def split: if_splits outcome.splits)
  have "resp_StatusCode resp < 400 \<and> (attempt = 0 \<or> \<not> ctx_done t)
        \<and> r = decoded_result want resp
        \<and> (want \<and> length (resp_Body resp) > 0 \<longrightarrow> resp_decoded resp \<noteq> None)"
    using assms resp
    by (auto simp: doRequest_attempt_def Let_def decoded_result_def
             split: if_splits option.splits; metis)
  with resp show ?thesis by blast
qed

lemma attempt_Continue_transient:
  assumes "doRequest_attempt c t verb path body want attempt = (Continue e, log)"
  shows "transient (outcome t) \<and> (attempt = 0 \<or> \<not> ctx_done t)"
  using assms
  by (auto simp: doRequest_attempt_def Let_def transient_def IsRetryable_api_error
           split: if_splits outcome.splits option.splits)

lemma attempt_Return_not_Errorf:
  assumes "doRequest_attempt c t verb path body want attempt = (Return (Inl err), log)"
  shows "err \<noteq> Errorf msg"
  using assms
  by (auto simp: doRequest_attempt_def Let_def api_error_def
           split: if_splits outcome.splits option.splits)

lemma loop_ok_answered:
  assumes "doRequest_loop c env verb path body want attempt lastErr wc = (Inr r, w')"
    and "wc = after c env verb path body w attempt"
    and "list_all (\<lambda>i. transient (outcome (env (clock w + i)))) [0..<attempt]"
    and "list_all (\<lambda>i. \<not> ctx_done (env (clock w + i))) [1..<attempt]"
  shows "\<exists>k resp. answered env w k resp \<and> resp_StatusCode resp < 400
           \<and> r = decoded_result want resp
           \<and> (want \<and> length (resp_Body resp) > 0 \<longrightarrow> resp_decoded resp \<noteq> None)
           \<and> w' = after c env verb path body w (Suc k)"
  using assms
proof (induction c env verb path body want attempt lastErr wc rule: doRequest_loop.induct)
  case (1 c env verb path body want attempt lastErr wc)
  have ck: "clock wc = clock w + attempt"
    using "1.prems"(2) by (simp add: after_def)
  show ?case
  proof (cases "attempt \<le> MaxRetries")
    case False
    with "1.prems"(1) show ?thesis
      by (simp add: loop_exit split: option.splits)
  next
    case True
    obtain x log where att:
      "doRequest_attempt c (env (clock wc)) verb path body want attempt = (x, log)"
      by force
    let ?entry = "\<lparr>attempt_no = attempt,
         waited = (if attempt > 0 then retry_delay attempt (rand_draw (env (clock w + attempt))) else 0),
         sent_req = new_request c verb path body\<rparr>"
    have next_world: "log = [?entry] \<Longrightarrow>
        \<lparr>clock = Suc (clock wc), sent = sent wc @ log\<rparr> =
          after c env verb path body w (Suc attempt)"
      using after_Suc[of c env verb path body w attempt] "1.prems"(2) by simp
    show ?thesis
    proof (cases x)
      case (Return res)
      with True att "1.prems"(1)
      have res: "res = Inr r" and w': "w' = \<lparr>clock = Suc (clock wc), sent = sent wc @ log\<rparr>"
        by (simp_all add: loop_Return)
      from att Return res
      have att': "doRequest_attempt c (env (clock wc)) verb path body want attempt =
                    (Return (Inr r), log)"
        by simp
      from attempt_Return_ok[OF att'] obtain resp where
        resp: "outcome (env (clock wc)) = Responds resp" "resp_StatusCode resp < 400"
          "attempt = 0 \<or> \<not> ctx_done (env (clock wc))"
          "r = decoded_result want resp"
          "want \<and> length (resp_Body resp) > 0 \<longrightarrow> resp_decoded resp \<noteq> None"
        by blast
      from attempt_log[OF att'] have "log = [?entry]"
        using att' by (auto simp: doRequest_attempt_def Let_def ck
                            split: if_splits outcome.splits option.splits)
      with next_world w' have w'': "w' = after c env verb path body w (Suc attempt)"
        by simp
      have "answered env w attempt resp"
        using True "1.prems"(3,4) resp(1,3)
        by (auto simp: answered_def ck list_all_iff less_Suc_eq)
      with resp w'' show ?thesis by blast
    next
      case (Continue e)
      with att have log: "log = [?entry]"
        by (simp add: attempt_Continue_log ck)
      from Continue att True "1.prems"(1)
      have run: "doRequest_loop c env verb path body want (Suc attempt) (Some e)
                   \<lparr>clock = Suc (clock wc), sent = sent wc @ log\<rparr> = (Inr r, w')"
        by (simp add: loop_Continue)
      from att Continue attempt_Continue_transient
      have tr: "transient (outcome (env (clock wc)))"
        and cx: "attempt = 0 \<or> \<not> ctx_done (env (clock wc))"
        by blast+
      show ?thesis
      proof (rule "1.IH"[OF True att[symmetric] _ run])
        show "x = Continue e" by (rule Continue)
        show "\<lparr>clock = Suc (clock wc), sent = sent wc @ log\<rparr> =
                after c env verb path body w (Suc attempt)"
          using next_world log by simp
        show "list_all (\<lambda>i. transient (outcome (env (clock w + i)))) [0..<Suc attempt]"
          using "1.prems"(3) tr by (simp add: ck)
        show "list_all (\<lambda>i. \<not> ctx_done (env (clock w + i))) [1..<Suc attempt]"
          using "1.prems"(4) cx by (auto simp: ck list_all_iff less_Suc_eq)
      qed
    qed
  qed
qed

lemma doRequest_ok_answered:
  assumes "doRequest c env verb path body want w = (Inr r, w')"
  shows "\<exists>k resp. answered env w k resp \<and> resp_StatusCode resp < 400
           \<and> r = decoded_result want resp
           \<and> (want \<and> length (resp_Body resp) > 0 \<longrightarrow> resp_decoded resp \<noteq> None)
           \<and> w' = after c env verb path body w (Suc k)"
proof (rule loop_ok_answered)
  show "doRequest_loop c env verb path body want 0 None w = (Inr r, w')"
    using assms by (simp add: doRequest_def)
  show "w = after c env verb path body w 0"
    by (simp add: after_def passes_0)
qed simp_all

lemma loop_not_Errorf:
  assumes "doRequest_loop c env verb path body want attempt lastErr w = (Inl err, w')"
    and "attempt \<le> MaxRetries \<or> lastErr \<noteq> None"
  shows "err \<noteq> Errorf msg"
  using assms
proof (induction c env verb path body want attempt lastErr w rule: doRequest_loop.induct)
  case (1 c env verb path body want attempt lastErr w)
  show ?case
  proof (cases "attempt \<le> MaxRetries")
    case False
    with "1.prems" show ?thesis
      by (auto simp: loop_exit split: option.splits)
  next
    case True
    obtain x log where att:
      "doRequest_attempt c (env (clock w)) verb path body want attempt = (x, log)"
      by force
    show ?thesis
    proof (cases x)
      case (Return res)
      with True att "1.prems"(1) have "res = Inl err"
        by (simp add: loop_Return)
      with att Return show ?thesis
        by (simp add: attempt_Return_not_Errorf)
    next
      case (Continue e)
      from Continue att True "1.prems"(1)
      have run: "doRequest_loop c env verb path body want (Suc attempt) (Some e)
                   \<lparr>clock = Suc (clock w), sent = sent w @ log\<rparr> = (Inl err, w')"
        by (simp add: loop_Continue)
      show ?thesis
        by (rule "1.IH"[OF True att[symmetric] Continue run]) simp
    qed
  qed
qed

lemma doRequest_not_Errorf:
  assumes "doRequest c env verb path body want w = (Inl err, w')"
  shows "err \<noteq> Errorf msg"
  using assms loop_not_Errorf[of c env verb path body want 0 None w err w' msg]
  by (simp add: doRequest_def)

section \<open>The retry schedule and its exhaustion\<close>

text \<open>The equations that evaluate a run on a concrete environment.\<close>

lemmas run_simps = doRequest_def doRequest_loop.simps doRequest_attempt_def Let_def
  MaxRetries_def respond_def api_error_def IsRetryable_def StatusTooManyRequests_def
  retry_delay_def backoff_def Int63n_def BaseRetryDelay_def new_request_def

text \<open>
  Claim C5. In every logical request the passes that send a request are numbered
  \<open>0, 1, 2, \<dots>\<close> and are at most 6. Pass 0 sleeps for nothing before its request; pass
  \<open>i\<close> with \<open>1 \<le> i \<le> 5\<close> has slept, before its request (the \<open>i+1\<close>-th), a time \<open>d\<close> in
  the half-open interval from \<open>base * 2^(i-1)\<close> to \<open>1.5 * base * 2^(i-1)\<close>, written
  \<open>2 * d < 3 * base * 2^(i-1)\<close> over the integers, with \<open>base\<close> one second in
  nanoseconds.
\<close>

theorem doRequest_backoff_schedule:
  assumes "doRequest c env verb path body want w = (r, w')"
  shows "\<exists>log. sent w' = sent w @ log
           \<and> length log \<le> 6
           \<and> map attempt_no log = [0..<length log]
           \<and> (\<forall>e\<in>set log.
                 (attempt_no e = 0 \<longrightarrow> waited e = 0)
               \<and> (1 \<le> attempt_no e \<longrightarrow>
                    attempt_no e \<le> 5
                  \<and> BaseRetryDelay * 2 ^ (attempt_no e - 1) \<le> waited e
                  \<and> 2 * waited e < 3 * (BaseRetryDelay * 2 ^ (attempt_no e - 1))))
           \<and> BaseRetryDelay = 1000000000"
proof -
  have "doRequest_loop c env verb path body want 0 None w = (r, w')"
    using assms by (simp add: doRequest_def)
  from loop_log[OF this, of w] obtain n where
    n: "n \<le> Suc MaxRetries" and s: "sent w' = sent w @ passes c env verb path body w n"
    by (auto simp: passes_0)
  let ?log = "passes c env verb path body w n"
  have len: "length ?log \<le> 6"
    using n by (simp add: length_passes MaxRetries_def)
  have idx: "map attempt_no ?log = [0..<length ?log]"
    by (simp add: passes_def comp_def)
  have each: "(attempt_no e = 0 \<longrightarrow> waited e = 0)
               \<and> (1 \<le> attempt_no e \<longrightarrow>
                    attempt_no e \<le> 5
                  \<and> BaseRetryDelay * 2 ^ (attempt_no e - 1) \<le> waited e
                  \<and> 2 * waited e < 3 * (BaseRetryDelay * 2 ^ (attempt_no e - 1)))"
    if "e \<in> set ?log" for e
  proof -
    from that obtain i where i: "i < n"
      and e: "e = \<lparr>attempt_no = i,
               waited = (if i > 0 then retry_delay i (rand_draw (env (clock w + i))) else 0),
               sent_req = new_request c verb path body\<rparr>"
      by (auto simp: passes_def)
    from i n have "i \<le> 5" by (simp add: MaxRetries_def)
    with e retry_delay_bounds[of i "rand_draw (env (clock w + i))"] show ?thesis
      by auto
  qed
  have "BaseRetryDelay = 1000000000" by (simp add: BaseRetryDelay_def)
  with s len idx each show ?thesis by blast
qed

theorem doRequest_backoff_schedule_witness:
  "fst (doRequest example_client (env_flaky :: Check env) ''GET'' ''/api/v1/checks/c1''
          None False world0) = Inr None
   \<and> map waited (sent (snd (doRequest example_client (env_flaky :: Check env) ''GET''
          ''/api/v1/checks/c1'' None False world0))) = [0, 1123456789, 2999999999]
   \<and> (\<exists>log. sent (snd (doRequest example_client (env_flaky :: Check env) ''GET''
                 ''/api/v1/checks/c1'' None False world0)) = sent world0 @ log
           \<and> length log \<le> 6
           \<and> map attempt_no log = [0..<length log]
           \<and> (\<forall>e\<in>set log.
                 (attempt_no e = 0 \<longrightarrow> waited e = 0)
               \<and> (1 \<le> attempt_no e \<longrightarrow>
                    attempt_no e \<le> 5
                  \<and> BaseRetryDelay * 2 ^ (attempt_no e - 1) \<le> waited e
                  \<and> 2 * waited e < 3 * (BaseRetryDelay * 2 ^ (attempt_no e - 1))))
           \<and> BaseRetryDelay = 1000000000)"
proof -
  let ?run = "doRequest example_client (env_flaky :: Check env) ''GET'' ''/api/v1/checks/c1''
                None False world0"
  have run: "?run = (fst ?run, snd ?run)" by simp
  have a: "fst ?run = Inr None"
    by (simp add: run_simps env_flaky_def example_client_def world0_def)
  have b: "map waited (sent (snd ?run)) = [0, 1123456789, 2999999999]"
    by (simp add: run_simps env_flaky_def example_client_def world0_def)
  from a b doRequest_backoff_schedule[OF run] show ?thesis by blast
qed


lemma doRequest_exhausted:
  assumes pre: "list_all (\<lambda>i. transient (outcome (env (clock w + i)))) [0..<MaxRetries]"
    and ctx: "list_all (\<lambda>i. \<not> ctx_done (env (clock w + i))) [1..<Suc MaxRetries]"
    and last: "outcome (env (clock w + MaxRetries)) = DoFails m \<and> e = TransportError m
             \<or> outcome (env (clock w + MaxRetries)) = ReadAllFails m
                 \<and> e = Wrapf ''failed to read response body'' (TransportError m)"
  shows "doRequest c env verb path body want w =
           (Inl (Wrapf ''max retries exceeded'' e),
            after c env verb path body w (Suc MaxRetries))"
proof -
  from ctx have ctx': "list_all (\<lambda>i. \<not> ctx_done (env (clock w + i))) [1..<MaxRetries]"
    and nc: "\<not> ctx_done (env (clock w + MaxRetries))"
    by (auto simp: list_all_iff MaxRetries_def)
  from loop_prefix[OF le_refl pre ctx', of c verb path body want] obtain lastErr where
    p: "doRequest_loop c env verb path body want 0 None w =
          doRequest_loop c env verb path body want MaxRetries lastErr
            (after c env verb path body w MaxRetries)"
    by blast
  have ck: "clock (after c env verb path body w MaxRetries) = clock w + MaxRetries"
    by (simp add: after_def)
  have att: "doRequest_attempt c (env (clock (after c env verb path body w MaxRetries)))
            verb path body want MaxRetries =
          (Continue e,
            [\<lparr>attempt_no = MaxRetries,
              waited = (if MaxRetries > 0
                        then retry_delay MaxRetries (rand_draw (env (clock w + MaxRetries)))
                        else 0),
              sent_req = new_request c verb path body\<rparr>])"
    unfolding ck using last nc
    by (auto simp: doRequest_attempt_def Let_def)
  have "doRequest_loop c env verb path body want MaxRetries lastErr
          (after c env verb path body w MaxRetries) =
        doRequest_loop c env verb path body want (Suc MaxRetries) (Some e)
          (after c env verb path body w (Suc MaxRetries))"
    by (simp only: loop_Continue[where env=env and w="after c env verb path body w MaxRetries",
                     OF le_refl att] after_Suc)
  also have "\<dots> = (Inl (Wrapf ''max retries exceeded'' e),
                     after c env verb path body w (Suc MaxRetries))"
    by (simp add: loop_exit)
  finally show ?thesis
    unfolding doRequest_def p .
qed

text \<open>
  Claim C2, as amended. When the first five passes of a logical request meet transient
  failures and the request is never cancelled, the sixth pass decides: if it fails in the
  HTTP client or in reading the body, \<open>doRequest\<close> returns "max retries exceeded"
  wrapping that last error; if it gets a response of status 400 or more (429 and 5xx
  included), \<open>doRequest\<close> returns the API error of that response itself, not wrapped.
  Six requests have been sent in each case.
\<close>

theorem doRequest_retries_exhausted:
  assumes "list_all (\<lambda>i. transient (outcome (env (clock w + i)))) [0..<5]"
    and "list_all (\<lambda>i. \<not> ctx_done (env (clock w + i))) [1..<6]"
  shows "(outcome (env (clock w + 5)) = DoFails m \<longrightarrow>
            doRequest c env verb path body want w =
              (Inl (Wrapf ''max retries exceeded'' (TransportError m)),
               after c env verb path body w 6))
       \<and> (outcome (env (clock w + 5)) = ReadAllFails m \<longrightarrow>
            doRequest c env verb path body want w =
              (Inl (Wrapf ''max retries exceeded''
                     (Wrapf ''failed to read response body'' (TransportError m))),
               after c env verb path body w 6))
       \<and> (outcome (env (clock w + 5)) = Responds resp \<and> resp_StatusCode resp \<ge> 400 \<longrightarrow>
            doRequest c env verb path body want w =
              (Inl (api_error resp), after c env verb path body w 6))"
proof -
  have five: "MaxRetries = 5" and six: "Suc MaxRetries = 6"
    by (simp_all add: MaxRetries_def)
  have pre: "list_all (\<lambda>i. transient (outcome (env (clock w + i)))) [0..<MaxRetries]"
    and ctx: "list_all (\<lambda>i. \<not> ctx_done (env (clock w + i))) [1..<Suc MaxRetries]"
    using assms unfolding five by simp_all
  have a: "doRequest c env verb path body want w =
              (Inl (Wrapf ''max retries exceeded'' (TransportError m)),
               after c env verb path body w 6)"
    if "outcome (env (clock w + 5)) = DoFails m"
    using doRequest_exhausted[OF pre ctx, of m "TransportError m" c verb path body want] that
    unfolding five by simp
  have b: "doRequest c env verb path body want w =
              (Inl (Wrapf ''max retries exceeded''
                     (Wrapf ''failed to read response body'' (TransportError m))),
               after c env verb path body w 6)"
    if "outcome (env (clock w + 5)) = ReadAllFails m"
    using doRequest_exhausted[OF pre ctx, of m
            "Wrapf ''failed to read response body'' (TransportError m)" c verb path body want]
          that
    unfolding five by simp
  have c: "doRequest c env verb path body want w =
              (Inl (api_error resp), after c env verb path body w 6)"
    if "outcome (env (clock w + 5)) = Responds resp" and "resp_StatusCode resp \<ge> 400"
  proof -
    have "answered env w MaxRetries resp"
      using pre ctx that(1) unfolding answered_def five by simp
    from doRequest_answered_error[OF this that(2), of c verb path body want] show ?thesis
      unfolding five by simp
  qed
  from a b c show ?thesis by blast
qed

theorem doRequest_retries_exhausted_witness:
  "list_all (\<lambda>i. transient (outcome ((env_down :: Check env) (clock world0 + i)))) [0..<5]
   \<and> list_all (\<lambda>i. \<not> ctx_done ((env_down :: Check env) (clock world0 + i))) [1..<6]
   \<and> outcome ((env_down :: Check env) (clock world0 + 5)) = DoFails ''connection refused''
   \<and> fst (doRequest example_client (env_down :: Check env) ''GET'' ''/api/v1/checks/c1''
             None True world0) =
       Inl (Wrapf ''max retries exceeded'' (TransportError ''connection refused''))
   \<and> length (sent (snd (doRequest example_client (env_down :: Check env) ''GET''
             ''/api/v1/checks/c1'' None True world0))) = 6"
proof -
  have h1: "list_all (\<lambda>i. transient (outcome ((env_down :: Check env) (clock world0 + i)))) [0..<5]"
    by (simp add: list_all_iff env_down_def transient_def)
  have h2: "list_all (\<lambda>i. \<not> ctx_done ((env_down :: Check env) (clock world0 + i))) [1..<6]"
    by (simp add: list_all_iff env_down_def)
  have h3: "outcome ((env_down :: Check env) (clock world0 + 5)) = DoFails ''connection refused''"
    by (simp add: env_down_def)
  from doRequest_retries_exhausted[OF h1 h2, of "''connection refused''" example_client
         "''GET''" "''/api/v1/checks/c1''" None True] h3
  have "doRequest example_client (env_down :: Check env) ''GET'' ''/api/v1/checks/c1''
          None True world0 =
        (Inl (Wrapf ''max retries exceeded'' (TransportError ''connection refused'')),
         after example_client (env_down :: Check env) ''GET'' ''/api/v1/checks/c1'' None
           world0 6)"
    by blast
  then show ?thesis
    using h1 h2 h3 by (simp add: after_def length_passes world0_def)
qed

text \<open>
  Claim C2 as stated fails: against a server that answers 503 six times, \<open>doRequest\<close>
  sends six requests and returns the API error of the last response, which is not a
  "max retries exceeded" error.
\<close>

theorem doRequest_last_api_error_not_wrapped:
  "fst (doRequest example_client (env_unavailable :: Check env) ''GET'' ''/api/v1/checks/c1''
          None True world0) = Inl (APIError 503 [] ''busy'')
   \<and> length (sent (snd (doRequest example_client (env_unavailable :: Check env) ''GET''
          ''/api/v1/checks/c1'' None True world0))) = 6
   \<and> fst (doRequest example_client (env_unavailable :: Check env) ''GET'' ''/api/v1/checks/c1''
          None True world0) \<noteq> Inl (Wrapf ''max retries exceeded'' (APIError 503 [] ''busy''))"
  by (simp add: run_simps env_unavailable_def example_client_def world0_def)

section \<open>Conflict on create\<close>

lemma passes_verbs:
  "list_all (\<lambda>e. req_method (sent_req e) = verb) (passes c env verb path body w n)"
  by (simp add: passes_def list_all_iff new_request_def)

lemma doRequest_conflict:
  assumes "answered env w k resp" and "resp_StatusCode resp = 409"
  shows "doRequest c env verb path body want w =
           (Inl (api_error resp), after c env verb path body w (Suc k))"
  using doRequest_answered_error[OF assms(1), of c verb path body want] assms(2) by simp

lemma CreateCheck_conflict:
  assumes "answered env w k resp" and "resp_StatusCode resp = 409"
  shows "CreateCheck c env req w =
           (Inl (ConflictError ''check''),
            after c env ''POST'' ''/api/v1/checks''
              (Some (marshal_CreateCheckRequest (CreateCheck_normalize req))) w (Suc k))"
  using assms
  by (simp add: CreateCheck_def Let_def doRequest_conflict IsConflict_api_error)

lemma CreateProject_conflict:
  assumes "answered env w k resp" and "resp_StatusCode resp = 409"
  shows "CreateProject c env name description w =
           (Inl (ConflictError ''project''),
            after c env ''POST'' ''/api/v1/projects''
              (Some (marshal_CreateProjectRequest
                 \<lparr>cpr_OrgID = orgID c, cpr_Name = name,
                  cpr_Description = normalizeDescription description\<rparr>)) w (Suc k))"
  using assms
  by (simp add: CreateProject_def Let_def doRequest_conflict IsConflict_api_error)

lemma after_only_verb:
  assumes "w' = after c env verb path body w n"
  shows "clock w' = clock w + n
       \<and> (\<exists>log. sent w' = sent w @ log \<and> length log = n
                \<and> list_all (\<lambda>e. req_method (sent_req e) = verb) log)"
  using assms by (simp add: after_def length_passes passes_verbs)

lemma GetCheck_not_Errorf: "fst (GetCheck c env ident w) \<noteq> Inl (Errorf msg)"
proof (cases "doRequest c env ''GET'' (''/api/v1/checks/'' @ ident) None True w")
  case (Pair r w')
  then show ?thesis
    by (cases r) (auto simp: GetCheck_def Let_def dest: doRequest_not_Errorf)
qed

lemma GetProject_not_Errorf: "fst (GetProject c env ident w) \<noteq> Inl (Errorf msg)"
proof (cases "doRequest c env ''GET'' (''/api/v1/projects/'' @ ident) None True w")
  case (Pair r w')
  then show ?thesis
    by (cases r) (auto simp: GetProject_def dest: doRequest_not_Errorf)
qed

lemma UpdateCheck_not_Errorf: "fst (UpdateCheck c env ident req w) \<noteq> Inl (Errorf msg)"
proof (cases "doRequest c env ''PUT'' (''/api/v1/checks/'' @ ident)
               (Some (marshal_UpdateCheckRequest (UpdateCheck_normalize req))) False w")
  case (Pair r w')
  then show ?thesis
    by (cases r) (auto simp: UpdateCheck_def Let_def GetCheck_not_Errorf
                       dest: doRequest_not_Errorf)
qed

lemma UpdateProject_not_Errorf:
  "fst (UpdateProject c env ident name description w) \<noteq> Inl (Errorf msg)"
proof (cases "doRequest c env ''PUT'' (''/api/v1/projects/'' @ ident)
               (Some (marshal_UpdateProjectRequest
                  \<lparr>upr_Name = name, upr_Description = normalizeDescription description\<rparr>))
               False w")
  case (Pair r w')
  then show ?thesis
    by (cases r) (auto simp: UpdateProject_def Let_def GetProject_not_Errorf
                       dest: doRequest_not_Errorf)
qed

lemma DeleteCheck_not_Errorf: "fst (DeleteCheck c env ident w) \<noteq> Some (Errorf msg)"
proof (cases "doRequest c env ''DELETE'' (''/api/v1/checks/'' @ ident) None False w")
  case (Pair r w')
  then show ?thesis
    by (cases r) (auto simp: DeleteCheck_def dest: doRequest_not_Errorf)
qed

lemma DeleteProject_not_Errorf: "fst (DeleteProject c env ident w) \<noteq> Some (Errorf msg)"
proof (cases "doRequest c env ''DELETE'' (''/api/v1/projects/'' @ ident) None False w")
  case (Pair r w')
  then show ?thesis
    by (cases r) (auto simp: DeleteProject_def dest: doRequest_not_Errorf)
qed

text \<open>
  Claim C6. When the POST of a create is answered with status 409 (after any number
  \<open>k\<close> of transient failures), \<open>CreateCheck\<close> returns the conflict error that names
  "check" and \<open>CreateProject\<close> the one that names "project"; the operation ends with the
  POST: it consumes the \<open>k + 1\<close> passes of the POST and logs \<open>k + 1\<close> requests, all of
  them POST, so no GET follows. Get, update and delete hand a 409 on as the API error it
  is, and never return a conflict error, whatever happens.
\<close>

theorem conflict_on_create:
  assumes "resp_StatusCode respC = 409" and "resp_StatusCode respP = 409"
  shows "(answered envC w k respC \<longrightarrow>
            (\<exists>w'. CreateCheck c envC req w = (Inl (ConflictError ''check''), w')
                 \<and> clock w' = clock w + Suc k
                 \<and> (\<exists>log. sent w' = sent w @ log \<and> length log = Suc k
                         \<and> list_all (\<lambda>e. req_method (sent_req e) = ''POST'') log))
          \<and> fst (GetCheck c envC ident w) = Inl (api_error respC)
          \<and> fst (UpdateCheck c envC ident ureq w) = Inl (api_error respC)
          \<and> fst (DeleteCheck c envC ident w) = Some (api_error respC))
       \<and> (answered envP w k respP \<longrightarrow>
            (\<exists>w'. CreateProject c envP name description w = (Inl (ConflictError ''project''), w')
                 \<and> clock w' = clock w + Suc k
                 \<and> (\<exists>log. sent w' = sent w @ log \<and> length log = Suc k
                         \<and> list_all (\<lambda>e. req_method (sent_req e) = ''POST'') log))
          \<and> fst (GetProject c envP ident w) = Inl (api_error respP)
          \<and> fst (UpdateProject c envP ident uname udescription w) = Inl (api_error respP)
          \<and> fst (DeleteProject c envP ident w) = Some (api_error respP))
       \<and> fst (GetCheck c envC ident w) \<noteq> Inl (ConflictError kind)
       \<and> fst (UpdateCheck c envC ident ureq w) \<noteq> Inl (ConflictError kind)
       \<and> fst (DeleteCheck c envC ident w) \<noteq> Some (ConflictError kind)
       \<and> fst (GetProject c envP ident w) \<noteq> Inl (ConflictError kind)
       \<and> fst (UpdateProject c envP ident uname udescription w) \<noteq> Inl (ConflictError kind)
       \<and> fst (DeleteProject c envP ident w) \<noteq> Some (ConflictError kind)"
  (is "(?AC \<longrightarrow> ?C1 \<and> ?C2 \<and> ?C3 \<and> ?C4) \<and> (?AP \<longrightarrow> ?P1 \<and> ?P2 \<and> ?P3 \<and> ?P4)
        \<and> ?N1 \<and> ?N2 \<and> ?N3 \<and> ?N4 \<and> ?N5 \<and> ?N6")
proof -
  have checks: "?AC \<longrightarrow> ?C1 \<and> ?C2 \<and> ?C3 \<and> ?C4"
  proof
    assume ans: ?AC
    let ?w' = "after c envC ''POST'' ''/api/v1/checks''
                 (Some (marshal_CreateCheckRequest (CreateCheck_normalize req))) w (Suc k)"
    have run: "CreateCheck c envC req w = (Inl (ConflictError ''check''), ?w')"
      by (rule CreateCheck_conflict[OF ans assms(1)])
    have "clock ?w' = clock w + Suc k
          \<and> (\<exists>log. sent ?w' = sent w @ log \<and> length log = Suc k
                  \<and> list_all (\<lambda>e. req_method (sent_req e) = ''POST'') log)"
      by (rule after_only_verb[OF refl])
    with run have 1: ?C1 by (intro exI[of _ ?w']) simp
    have 2: ?C2
      by (simp add: GetCheck_def doRequest_conflict[OF ans assms(1)])
    have 3: ?C3
      by (simp add: UpdateCheck_def Let_def doRequest_conflict[OF ans assms(1)])
    have 4: ?C4
      by (simp add: DeleteCheck_def doRequest_conflict[OF ans assms(1)])
    show "?C1 \<and> ?C2 \<and> ?C3 \<and> ?C4"
      by (intro conjI) (rule 1 2 3 4)+
  qed
  have projects: "?AP \<longrightarrow> ?P1 \<and> ?P2 \<and> ?P3 \<and> ?P4"
  proof
    assume ans: ?AP
    let ?w' = "after c envP ''POST'' ''/api/v1/projects''
                 (Some (marshal_CreateProjectRequest
                    \<lparr>cpr_OrgID = orgID c, cpr_Name = name,
                     cpr_Description = normalizeDescription description\<rparr>)) w (Suc k)"
    have run: "CreateProject c envP name description w = (Inl (ConflictError ''project''), ?w')"
      by (rule CreateProject_conflict[OF ans assms(2)])
    have "clock ?w' = clock w + Suc k
          \<and> (\<exists>log. sent ?w' = sent w @ log \<and> length log = Suc k
                  \<and> list_all (\<lambda>e. req_method (sent_req e) = ''POST'') log)"
      by (rule after_only_verb[OF refl])
    with run have 1: ?P1 by (intro exI[of _ ?w']) simp
    have 2: ?P2
      by (simp add: GetProject_def doRequest_conflict[OF ans assms(2)])
    have 3: ?P3
      by (simp add: UpdateProject_def Let_def doRequest_conflict[OF ans assms(2)])
    have 4: ?P4
      by (simp add: DeleteProject_def doRequest_conflict[OF ans assms(2)])
    show "?P1 \<and> ?P2 \<and> ?P3 \<and> ?P4"
      by (intro conjI) (rule 1 2 3 4)+
  qed
  have never: ?N1 ?N2 ?N3 ?N4 ?N5 ?N6
    unfolding ConflictError_def
    by (rule GetCheck_not_Errorf UpdateCheck_not_Errorf DeleteCheck_not_Errorf
          GetProject_not_Errorf UpdateProject_not_Errorf DeleteProject_not_Errorf)+
  show ?thesis
    by (intro conjI) (rule checks projects never)+
qed


theorem conflict_on_create_witness:
  "resp_StatusCode (\<lparr>resp_StatusCode = 409, resp_Body = ''slug already taken'',
        resp_errResp = None, resp_decoded = None\<rparr> :: Check response) = 409
   \<and> answered (env_conflict :: Check env) world0 0
        \<lparr>resp_StatusCode = 409, resp_Body = ''slug already taken'',
         resp_errResp = None, resp_decoded = None\<rparr>
   \<and> answered (env_conflict :: Project env) world0 0
        \<lparr>resp_StatusCode = 409, resp_Body = ''slug already taken'',
         resp_errResp = None, resp_decoded = None\<rparr>
   \<and> fst (CreateCheck example_client env_conflict example_create world0) =
        Inl (Errorf ''check already exists, use `terraform import` to manage it'')
   \<and> fst (CreateProject example_client env_conflict ''Production'' None world0) =
        Inl (Errorf ''project already exists, use `terraform import` to manage it'')
   \<and> map (\<lambda>e. req_method (sent_req e))
        (sent (snd (CreateCheck example_client env_conflict example_create world0))) = [''POST'']
   \<and> fst (UpdateCheck example_client env_conflict ''c1'' example_update world0) =
        Inl (APIError 409 [] ''slug already taken'')"
proof -
  let ?rc = "\<lparr>resp_StatusCode = 409, resp_Body = ''slug already taken'',
               resp_errResp = None, resp_decoded = None\<rparr> :: Check response"
  let ?rp = "\<lparr>resp_StatusCode = 409, resp_Body = ''slug already taken'',
               resp_errResp = None, resp_decoded = None\<rparr> :: Project response"
  have sc: "resp_StatusCode ?rc = 409" and sp: "resp_StatusCode ?rp = 409"
    by simp_all
  have ac: "answered (env_conflict :: Check env) world0 0 ?rc"
    by (simp add: answered_def env_conflict_def respond_def)
  have ap: "answered (env_conflict :: Project env) world0 0 ?rp"
    by (simp add: answered_def env_conflict_def respond_def)
  note inst = conflict_on_create[OF sc sp, of env_conflict world0 0 example_client
      example_create "''c1''" example_update env_conflict "''Production''" None None None
      "''check''"]
  from inst ac have 1: "fst (CreateCheck example_client env_conflict example_create world0) =
        Inl (ConflictError ''check'')"
    by force
  from inst ap have 2: "fst (CreateProject example_client env_conflict ''Production'' None
        world0) = Inl (ConflictError ''project'')"
    by force
  from inst ac have 3: "fst (UpdateCheck example_client env_conflict ''c1'' example_update
        world0) = Inl (api_error ?rc)"
    by blast
  have 4: "map (\<lambda>e. req_method (sent_req e))
        (sent (snd (CreateCheck example_client env_conflict example_create world0))) = [''POST'']"
    by (simp add: CreateCheck_def run_simps env_conflict_def IsConflict_def StatusConflict_def
          world0_def)
  from sc ac ap 1 2 3 4 show ?thesis
    by (simp add: ConflictError_def api_error_def)
qed

section \<open>Not found\<close>






section \<open>Read after write\<close>

lemma after_last:
  "sent_req (last (sent (after c env verb path body w (Suc n)))) =
     new_request c verb path body"
  by (simp add: after_def passes_Suc)

lemma after_clock: "clock (after c env verb path body w n) = clock w + n"
  by (simp add: after_def)


lemma GetProject_ok:
  assumes "GetProject c env ident w = (Inr project, w')"
  shows "\<exists>j respG. answered env w j respG \<and> resp_StatusCode respG < 400
           \<and> w' = after c env ''GET'' (''/api/v1/projects/'' @ ident) None w (Suc j)
           \<and> project = target zero_Project (decoded_result True respG)"
proof (cases "doRequest c env ''GET'' (''/api/v1/projects/'' @ ident) None True w")
  case (Pair r w1)
  show ?thesis
  proof (cases r)
    case (Inl err)
    with Pair assms show ?thesis by (simp add: GetProject_def)
  next
    case (Inr res)
    with Pair assms have w': "w' = w1" and project: "project = target zero_Project res"
      by (simp_all add: GetProject_def)
    from Pair Inr doRequest_ok_answered[of c env "''GET''" "''/api/v1/projects/'' @ ident"
        None True w res w1]
    obtain j respG where "answered env w j respG" "resp_StatusCode respG < 400"
        "res = decoded_result True respG"
        "w1 = after c env ''GET'' (''/api/v1/projects/'' @ ident) None w (Suc j)"
      by auto
    with w' project show ?thesis by blast
  qed
qed

lemma doRequest_Inr_iff:
  "doRequest c env verb path body want w = (Inr r, w') \<longleftrightarrow>
     (\<exists>k resp. answered env w k resp \<and> succeeds want resp
        \<and> r = decoded_result want resp
        \<and> w' = after c env verb path body w (Suc k))"
proof
  assume "doRequest c env verb path body want w = (Inr r, w')"
  from doRequest_ok_answered[OF this] obtain k resp where
    a: "answered env w k resp" "r = decoded_result want resp"
       "w' = after c env verb path body w (Suc k)"
    and st: "resp_StatusCode resp < 400"
    and dec: "want \<and> length (resp_Body resp) > 0 \<longrightarrow> resp_decoded resp \<noteq> None"
    by blast
  from st dec have "succeeds want resp"
    by (simp add: succeeds_def)
  with a show
    "\<exists>k resp. answered env w k resp \<and> succeeds want resp
        \<and> r = decoded_result want resp
        \<and> w' = after c env verb path body w (Suc k)"
    by blast
next
  assume "\<exists>k resp. answered env w k resp \<and> succeeds want resp
        \<and> r = decoded_result want resp
        \<and> w' = after c env verb path body w (Suc k)"
  then obtain k resp where a: "answered env w k resp" and s: "succeeds want resp"
    and r: "r = decoded_result want resp"
    and w': "w' = after c env verb path body w (Suc k)"
    by blast
  from s have st: "resp_StatusCode resp < 400"
    and dec: "want \<and> length (resp_Body resp) > 0 \<longrightarrow> resp_decoded resp \<noteq> None"
    by (auto simp: succeeds_def split: if_splits)
  from doRequest_answered_ok[OF a st dec, of c verb path body] r w'
  show "doRequest c env verb path body want w = (Inr r, w')"
    by simp
qed

lemma GetCheck_iff:
  "GetCheck c env ident w = (Inr check, w') \<longleftrightarrow>
     (\<exists>j respG. answered env w j respG \<and> succeeds True respG
        \<and> w' = after c env ''GET'' (''/api/v1/checks/'' @ ident) None w (Suc j)
        \<and> check = (target zero_Check (decoded_result True respG))
               \<lparr>chk_Tags := normalizeTags
                  (chk_Tags (target zero_Check (decoded_result True respG)))\<rparr>)"
proof -
  have "GetCheck c env ident w = (Inr check, w') \<longleftrightarrow>
          (\<exists>res. doRequest c env ''GET'' (''/api/v1/checks/'' @ ident) None True w = (Inr res, w')
             \<and> check = (target zero_Check res)
                   \<lparr>chk_Tags := normalizeTags (chk_Tags (target zero_Check res))\<rparr>)"
    by (cases "doRequest c env ''GET'' (''/api/v1/checks/'' @ ident) None True w")
       (auto simp: GetCheck_def Let_def split: sum.splits)
  then show ?thesis
    unfolding doRequest_Inr_iff by blast
qed

lemma GetProject_iff:
  "GetProject c env ident w = (Inr project, w') \<longleftrightarrow>
     (\<exists>j respG. answered env w j respG \<and> succeeds True respG
        \<and> w' = after c env ''GET'' (''/api/v1/projects/'' @ ident) None w (Suc j)
        \<and> project = target zero_Project (decoded_result True respG))"
proof -
  have "GetProject c env ident w = (Inr project, w') \<longleftrightarrow>
          (\<exists>res. doRequest c env ''GET'' (''/api/v1/projects/'' @ ident) None True w =
                    (Inr res, w')
             \<and> project = target zero_Project res)"
    by (cases "doRequest c env ''GET'' (''/api/v1/projects/'' @ ident) None True w")
       (auto simp: GetProject_def split: sum.splits)
  then show ?thesis
    unfolding doRequest_Inr_iff by blast
qed

lemma CreateCheck_iff:
  "CreateCheck c env req w = (Inr check, w') \<longleftrightarrow>
      (\<exists>k j respW respG.
           answered env w k respW \<and> succeeds True respW
         \<and> answered env
              (after c env ''POST'' ''/api/v1/checks''
                 (Some (marshal_CreateCheckRequest (CreateCheck_normalize req))) w (Suc k))
              j respG
         \<and> succeeds True respG
         \<and> w' = after c env ''GET''
                  (''/api/v1/checks/'' @ chk_ID (target zero_Check (decoded_result True respW)))
                  None
                  (after c env ''POST'' ''/api/v1/checks''
                     (Some (marshal_CreateCheckRequest (CreateCheck_normalize req))) w (Suc k))
                  (Suc j)
         \<and> check = (target zero_Check (decoded_result True respG))
               \<lparr>chk_Tags := normalizeTags
                  (chk_Tags (target zero_Check (decoded_result True respG)))\<rparr>)"
  (is "?L \<longleftrightarrow> ?R")
proof -
  have step: "?L \<longleftrightarrow>
      (\<exists>res w1. doRequest c env ''POST'' ''/api/v1/checks''
               (Some (marshal_CreateCheckRequest (CreateCheck_normalize req))) True w = (Inr res, w1)
         \<and> GetCheck c env (chk_ID (target zero_Check res)) w1 = (Inr check, w'))"
    by (cases "doRequest c env ''POST'' ''/api/v1/checks''
               (Some (marshal_CreateCheckRequest (CreateCheck_normalize req))) True w")
       (auto simp: CreateCheck_def Let_def split: sum.splits if_splits)
  show ?thesis
  proof
    assume ?L
    with step obtain res w1 where
      wr: "doRequest c env ''POST'' ''/api/v1/checks''
               (Some (marshal_CreateCheckRequest (CreateCheck_normalize req))) True w = (Inr res, w1)"
      and gt: "GetCheck c env (chk_ID (target zero_Check res)) w1 = (Inr check, w')"
      by blast
    from wr[unfolded doRequest_Inr_iff] obtain k respW where
      k: "answered env w k respW" "succeeds True respW"
        "res = decoded_result True respW"
        "w1 = after c env ''POST'' ''/api/v1/checks''
                (Some (marshal_CreateCheckRequest (CreateCheck_normalize req))) w (Suc k)"
      by blast
    from gt[unfolded GetCheck_iff] obtain j respG where
      j: "answered env w1 j respG" "succeeds True respG"
        "w' = after c env ''GET'' (''/api/v1/checks/'' @ chk_ID (target zero_Check res)) None w1 (Suc j)"
        "check = (target zero_Check (decoded_result True respG))
               \<lparr>chk_Tags := normalizeTags
                  (chk_Tags (target zero_Check (decoded_result True respG)))\<rparr>"
      by blast
    from k j show ?R by blast
  next
    assume ?R
    then obtain k j respW respG where
      k: "answered env w k respW" "succeeds True respW"
      and j: "answered env
              (after c env ''POST'' ''/api/v1/checks''
                 (Some (marshal_CreateCheckRequest (CreateCheck_normalize req))) w (Suc k))
              j respG" "succeeds True respG"
      and w': "w' = after c env ''GET''
                  (''/api/v1/checks/'' @ chk_ID (target zero_Check (decoded_result True respW)))
                  None
                  (after c env ''POST'' ''/api/v1/checks''
                     (Some (marshal_CreateCheckRequest (CreateCheck_normalize req))) w (Suc k))
                  (Suc j)"
      and res: "check = (target zero_Check (decoded_result True respG))
               \<lparr>chk_Tags := normalizeTags
                  (chk_Tags (target zero_Check (decoded_result True respG)))\<rparr>"
      by blast
    let ?w1 = "after c env ''POST'' ''/api/v1/checks''
                 (Some (marshal_CreateCheckRequest (CreateCheck_normalize req))) w (Suc k)"
    have wr: "doRequest c env ''POST'' ''/api/v1/checks''
               (Some (marshal_CreateCheckRequest (CreateCheck_normalize req))) True w = (Inr (decoded_result True respW), ?w1)"
      unfolding doRequest_Inr_iff using k by blast
    have gt: "GetCheck c env (chk_ID (target zero_Check (decoded_result True respW))) ?w1 = (Inr check, w')"
      unfolding GetCheck_iff using j w' res by blast
    from wr gt show ?L
      unfolding step by blast
  qed
qed

lemma UpdateCheck_iff:
  "UpdateCheck c env ident ureq w = (Inr check, w') \<longleftrightarrow>
      (\<exists>k j respW respG.
           answered env w k respW \<and> succeeds False respW
         \<and> answered env
              (after c env ''PUT'' (''/api/v1/checks/'' @ ident)
                 (Some (marshal_UpdateCheckRequest (UpdateCheck_normalize ureq))) w (Suc k))
              j respG
         \<and> succeeds True respG
         \<and> w' = after c env ''GET''
                  (''/api/v1/checks/'' @ ident)
                  None
                  (after c env ''PUT'' (''/api/v1/checks/'' @ ident)
                     (Some (marshal_UpdateCheckRequest (UpdateCheck_normalize ureq))) w (Suc k))
                  (Suc j)
         \<and> check = (target zero_Check (decoded_result True respG))
               \<lparr>chk_Tags := normalizeTags
                  (chk_Tags (target zero_Check (decoded_result True respG)))\<rparr>)"
  (is "?L \<longleftrightarrow> ?R")
proof -
  have step: "?L \<longleftrightarrow>
      (\<exists>res w1. doRequest c env ''PUT'' (''/api/v1/checks/'' @ ident)
               (Some (marshal_UpdateCheckRequest (UpdateCheck_normalize ureq))) False w = (Inr res, w1)
         \<and> GetCheck c env ident w1 = (Inr check, w'))"
    by (cases "doRequest c env ''PUT'' (''/api/v1/checks/'' @ ident)
               (Some (marshal_UpdateCheckRequest (UpdateCheck_normalize ureq))) False w")
       (auto simp: UpdateCheck_def Let_def split: sum.splits)
  show ?thesis
  proof
    assume ?L
    with step obtain res w1 where
      wr: "doRequest c env ''PUT'' (''/api/v1/checks/'' @ ident)
               (Some (marshal_UpdateCheckRequest (UpdateCheck_normalize ureq))) False w = (Inr res, w1)"
      and gt: "GetCheck c env ident w1 = (Inr check, w')"
      by blast
    from wr[unfolded doRequest_Inr_iff] obtain k respW where
      k: "answered env w k respW" "succeeds False respW"
        "res = decoded_result False respW"
        "w1 = after c env ''PUT'' (''/api/v1/checks/'' @ ident)
                (Some (marshal_UpdateCheckRequest (UpdateCheck_normalize ureq))) w (Suc k)"
      by blast
    from gt[unfolded GetCheck_iff] obtain j respG where
      j: "answered env w1 j respG" "succeeds True respG"
        "w' = after c env ''GET'' (''/api/v1/checks/'' @ ident) None w1 (Suc j)"
        "check = (target zero_Check (decoded_result True respG))
               \<lparr>chk_Tags := normalizeTags
                  (chk_Tags (target zero_Check (decoded_result True respG)))\<rparr>"
      by blast
    from k j show ?R by blast
  next
    assume ?R
    then obtain k j respW respG where
      k: "answered env w k respW" "succeeds False respW"
      and j: "answered env
              (after c env ''PUT'' (''/api/v1/checks/'' @ ident)
                 (Some (marshal_UpdateCheckRequest (UpdateCheck_normalize ureq))) w (Suc k))
              j respG" "succeeds True respG"
      and w': "w' = after c env ''GET''
                  (''/api/v1/checks/'' @ ident)
                  None
                  (after c env ''PUT'' (''/api/v1/checks/'' @ ident)
                     (Some (marshal_UpdateCheckRequest (UpdateCheck_normalize ureq))) w (Suc k))
                  (Suc j)"
      and res: "check = (target zero_Check (decoded_result True respG))
               \<lparr>chk_Tags := normalizeTags
                  (chk_Tags (target zero_Check (decoded_result True respG)))\<rparr>"
      by blast
    let ?w1 = "after c env ''PUT'' (''/api/v1/checks/'' @ ident)
                 (Some (marshal_UpdateCheckRequest (UpdateCheck_normalize ureq))) w (Suc k)"
    have wr: "doRequest c env ''PUT'' (''/api/v1/checks/'' @ ident)
               (Some (marshal_UpdateCheckRequest (UpdateCheck_normalize ureq))) False w = (Inr (decoded_result False respW), ?w1)"
      unfolding doRequest_Inr_iff using k by blast
    have gt: "GetCheck c env ident ?w1 = (Inr check, w')"
      unfolding GetCheck_iff using j w' res by blast
    from wr gt show ?L
      unfolding step by blast
  qed
qed

lemma CreateProject_iff:
  "CreateProject c env name description w = (Inr project, w') \<longleftrightarrow>
      (\<exists>k j respW respG.
           answered env w k respW \<and> succeeds True respW
         \<and> answered env
              (after c env ''POST'' ''/api/v1/projects''
                 (Some (marshal_CreateProjectRequest
                    \<lparr>cpr_OrgID = orgID c, cpr_Name = name,
                     cpr_Description = normalizeDescription description\<rparr>)) w (Suc k))
              j respG
         \<and> succeeds True respG
         \<and> w' = after c env ''GET''
                  (''/api/v1/projects/'' @ prj_ID (target zero_Project (decoded_result True respW)))
                  None
                  (after c env ''POST'' ''/api/v1/projects''
                     (Some (marshal_CreateProjectRequest
                    \<lparr>cpr_OrgID = orgID c, cpr_Name = name,
                     cpr_Description = normalizeDescription description\<rparr>)) w (Suc k))
                  (Suc j)
         \<and> project = target zero_Project (decoded_result True respG))"
  (is "?L \<longleftrightarrow> ?R")
proof -
  have step: "?L \<longleftrightarrow>
      (\<exists>res w1. doRequest c env ''POST'' ''/api/v1/projects''
               (Some (marshal_CreateProjectRequest
                    \<lparr>cpr_OrgID = orgID c, cpr_Name = name,
                     cpr_Description = normalizeDescription description\<rparr>)) True w = (Inr res, w1)
         \<and> GetProject c env (prj_ID (target zero_Project res)) w1 = (Inr project, w'))"
    by (cases "doRequest c env ''POST'' ''/api/v1/projects''
               (Some (marshal_CreateProjectRequest
                    \<lparr>cpr_OrgID = orgID c, cpr_Name = name,
                     cpr_Description = normalizeDescription description\<rparr>)) True w")
       (auto simp: CreateProject_def Let_def split: sum.splits if_splits)
  show ?thesis
  proof
    assume ?L
    with step obtain res w1 where
      wr: "doRequest c env ''POST'' ''/api/v1/projects''
               (Some (marshal_CreateProjectRequest
                    \<lparr>cpr_OrgID = orgID c, cpr_Name = name,
                     cpr_Description = normalizeDescription description\<rparr>)) True w = (Inr res, w1)"
      and gt: "GetProject c env (prj_ID (target zero_Project res)) w1 = (Inr project, w')"
      by blast
    from wr[unfolded doRequest_Inr_iff] obtain k respW where
      k: "answered env w k respW" "succeeds True respW"
        "res = decoded_result True respW"
        "w1 = after c env ''POST'' ''/api/v1/projects''
                (Some (marshal_CreateProjectRequest
                    \<lparr>cpr_OrgID = orgID c, cpr_Name = name,
                     cpr_Description = normalizeDescription description\<rparr>)) w (Suc k)"
      by blast
    from gt[unfolded GetProject_iff] obtain j respG where
      j: "answered env w1 j respG" "succeeds True respG"
        "w' = after c env ''GET'' (''/api/v1/projects/'' @ prj_ID (target zero_Project res)) None w1 (Suc j)"
        "project = target zero_Project (decoded_result True respG)"
      by blast
    from k j show ?R by blast
  next
    assume ?R
    then obtain k j respW respG where
      k: "answered env w k respW" "succeeds True respW"
      and j: "answered env
              (after c env ''POST'' ''/api/v1/projects''
                 (Some (marshal_CreateProjectRequest
                    \<lparr>cpr_OrgID = orgID c, cpr_Name = name,
                     cpr_Description = normalizeDescription description\<rparr>)) w (Suc k))
              j respG" "succeeds True respG"
      and w': "w' = after c env ''GET''
                  (''/api/v1/projects/'' @ prj_ID (target zero_Project (decoded_result True respW)))
                  None
                  (after c env ''POST'' ''/api/v1/projects''
                     (Some (marshal_CreateProjectRequest
                    \<lparr>cpr_OrgID = orgID c, cpr_Name = name,
                     cpr_Description = normalizeDescription description\<rparr>)) w (Suc k))
                  (Suc j)"
      and res: "project = target zero_Project (decoded_result True respG)"
      by blast
    let ?w1 = "after c env ''POST'' ''/api/v1/projects''
                 (Some (marshal_CreateProjectRequest
                    \<lparr>cpr_OrgID = orgID c, cpr_Name = name,
                     cpr_Description = normalizeDescription description\<rparr>)) w (Suc k)"
    have wr: "doRequest c env ''POST'' ''/api/v1/projects''
               (Some (marshal_CreateProjectRequest
                    \<lparr>cpr_OrgID = orgID c, cpr_Name = name,
                     cpr_Description = normalizeDescription description\<rparr>)) True w = (Inr (decoded_result True respW), ?w1)"
      unfolding doRequest_Inr_iff using k by blast
    have gt: "GetProject c env (prj_ID (target zero_Project (decoded_result True respW))) ?w1 = (Inr project, w')"
      unfolding GetProject_iff using j w' res by blast
    from wr gt show ?L
      unfolding step by blast
  qed
qed

lemma UpdateProject_iff:
  "UpdateProject c env ident uname udescription w = (Inr project, w') \<longleftrightarrow>
      (\<exists>k j respW respG.
           answered env w k respW \<and> succeeds False respW
         \<and> answered env
              (after c env ''PUT'' (''/api/v1/projects/'' @ ident)
                 (Some (marshal_UpdateProjectRequest
                    \<lparr>upr_Name = uname,
                     upr_Description = normalizeDescription udescription\<rparr>)) w (Suc k))
              j respG
         \<and> succeeds True respG
         \<and> w' = after c env ''GET''
                  (''/api/v1/projects/'' @ ident)
                  None
                  (after c env ''PUT'' (''/api/v1/projects/'' @ ident)
                     (Some (marshal_UpdateProjectRequest
                    \<lparr>upr_Name = uname,
                     upr_Description = normalizeDescription udescription\<rparr>)) w (Suc k))
                  (Suc j)
         \<and> project = target zero_Project (decoded_result True respG))"
  (is "?L \<longleftrightarrow> ?R")
proof -
  have step: "?L \<longleftrightarrow>
      (\<exists>res w1. doRequest c env ''PUT'' (''/api/v1/projects/'' @ ident)
               (Some (marshal_UpdateProjectRequest
                    \<lparr>upr_Name = uname,
                     upr_Description = normalizeDescription udescription\<rparr>)) False w = (Inr res, w1)
         \<and> GetProject c env ident w1 = (Inr project, w'))"
    by (cases "doRequest c env ''PUT'' (''/api/v1/projects/'' @ ident)
               (Some (marshal_UpdateProjectRequest
                    \<lparr>upr_Name = uname,
                     upr_Description = normalizeDescription udescription\<rparr>)) False w")
       (auto simp: UpdateProject_def Let_def split: sum.splits)
  show ?thesis
  proof
    assume ?L
    with step obtain res w1 where
      wr: "doRequest c env ''PUT'' (''/api/v1/projects/'' @ ident)
               (Some (marshal_UpdateProjectRequest
                    \<lparr>upr_Name = uname,
                     upr_Description = normalizeDescription udescription\<rparr>)) False w = (Inr res, w1)"
      and gt: "GetProject c env ident w1 = (Inr project, w')"
      by blast
    from wr[unfolded doRequest_Inr_iff] obtain k respW where
      k: "answered env w k respW" "succeeds False respW"
        "res = decoded_result False respW"
        "w1 = after c env ''PUT'' (''/api/v1/projects/'' @ ident)
                (Some (marshal_UpdateProjectRequest
                    \<lparr>upr_Name = uname,
                     upr_Description = normalizeDescription udescription\<rparr>)) w (Suc k)"
      by blast
    from gt[unfolded GetProject_iff] obtain j respG where
      j: "answered env w1 j respG" "succeeds True respG"
        "w' = after c env ''GET'' (''/api/v1/projects/'' @ ident) None w1 (Suc j)"
        "project = target zero_Project (decoded_result True respG)"
      by blast
    from k j show ?R by blast
  next
    assume ?R
    then obtain k j respW respG where
      k: "answered env w k respW" "succeeds False respW"
      and j: "answered env
              (after c env ''PUT'' (''/api/v1/projects/'' @ ident)
                 (Some (marshal_UpdateProjectRequest
                    \<lparr>upr_Name = uname,
                     upr_Description = normalizeDescription udescription\<rparr>)) w (Suc k))
              j respG" "succeeds True respG"
      and w': "w' = after c env ''GET''
                  (''/api/v1/projects/'' @ ident)
                  None
                  (after c env ''PUT'' (''/api/v1/projects/'' @ ident)
                     (Some (marshal_UpdateProjectRequest
                    \<lparr>upr_Name = uname,
                     upr_Description = normalizeDescription udescription\<rparr>)) w (Suc k))
                  (Suc j)"
      and res: "project = target zero_Project (decoded_result True respG)"
      by blast
    let ?w1 = "after c env ''PUT'' (''/api/v1/projects/'' @ ident)
                 (Some (marshal_UpdateProjectRequest
                    \<lparr>upr_Name = uname,
                     upr_Description = normalizeDescription udescription\<rparr>)) w (Suc k)"
    have wr: "doRequest c env ''PUT'' (''/api/v1/projects/'' @ ident)
               (Some (marshal_UpdateProjectRequest
                    \<lparr>upr_Name = uname,
                     upr_Description = normalizeDescription udescription\<rparr>)) False w = (Inr (decoded_result False respW), ?w1)"
      unfolding doRequest_Inr_iff using k by blast
    have gt: "GetProject c env ident ?w1 = (Inr project, w')"
      unfolding GetProject_iff using j w' res by blast
    from wr gt show ?L
      unfolding step by blast
  qed
qed

text \<open>
  Claim C8. A create or an update of a check or of a project returns a resource exactly
  when the write (POST or PUT) is answered with success after \<open>k\<close> transient failures and a
  GET of the resource, issued in the world the write left (for a create, at the identifier
  that the write's response carried), is answered with success after \<open>j\<close> transient
  failures. The operation then ends with that GET, and the resource returned is the one
  decoded from the GET's response (with its tags normalised, for a check); nothing else
  of the write's response is in it.
\<close>

theorem read_after_write:
  "(CreateCheck c envC req w = (Inr check, w') \<longleftrightarrow>
      (\<exists>k j respW respG.
           answered envC w k respW \<and> succeeds True respW
         \<and> answered envC
              (after c envC ''POST'' ''/api/v1/checks''
                 (Some (marshal_CreateCheckRequest (CreateCheck_normalize req))) w (Suc k))
              j respG
         \<and> succeeds True respG
         \<and> w' = after c envC ''GET''
                  (''/api/v1/checks/'' @ chk_ID (target zero_Check (decoded_result True respW)))
                  None
                  (after c envC ''POST'' ''/api/v1/checks''
                     (Some (marshal_CreateCheckRequest (CreateCheck_normalize req))) w (Suc k))
                  (Suc j)
         \<and> check = (target zero_Check (decoded_result True respG))
               \<lparr>chk_Tags := normalizeTags
                  (chk_Tags (target zero_Check (decoded_result True respG)))\<rparr>))
   \<and> (UpdateCheck c envC ident ureq w = (Inr check, w') \<longleftrightarrow>
      (\<exists>k j respW respG.
           answered envC w k respW \<and> succeeds False respW
         \<and> answered envC
              (after c envC ''PUT'' (''/api/v1/checks/'' @ ident)
                 (Some (marshal_UpdateCheckRequest (UpdateCheck_normalize ureq))) w (Suc k))
              j respG
         \<and> succeeds True respG
         \<and> w' = after c envC ''GET''
                  (''/api/v1/checks/'' @ ident)
                  None
                  (after c envC ''PUT'' (''/api/v1/checks/'' @ ident)
                     (Some (marshal_UpdateCheckRequest (UpdateCheck_normalize ureq))) w (Suc k))
                  (Suc j)
         \<and> check = (target zero_Check (decoded_result True respG))
               \<lparr>chk_Tags := normalizeTags
                  (chk_Tags (target zero_Check (decoded_result True respG)))\<rparr>))
   \<and> (CreateProject c envP name description w = (Inr project, w') \<longleftrightarrow>
      (\<exists>k j respW respG.
           answered envP w k respW \<and> succeeds True respW
         \<and> answered envP
              (after c envP ''POST'' ''/api/v1/projects''
                 (Some (marshal_CreateProjectRequest
                    \<lparr>cpr_OrgID = orgID c, cpr_Name = name,
                     cpr_Description = normalizeDescription description\<rparr>)) w (Suc k))
              j respG
         \<and> succeeds True respG
         \<and> w' = after c envP ''GET''
                  (''/api/v1/projects/'' @ prj_ID (target zero_Project (decoded_result True respW)))
                  None
                  (after c envP ''POST'' ''/api/v1/projects''
                     (Some (marshal_CreateProjectRequest
                    \<lparr>cpr_OrgID = orgID c, cpr_Name = name,
                     cpr_Description = normalizeDescription description\<rparr>)) w (Suc k))
                  (Suc j)
         \<and> project = target zero_Project (decoded_result True respG)))
   \<and> (UpdateProject c envP ident uname udescription w = (Inr project, w') \<longleftrightarrow>
      (\<exists>k j respW respG.
           answered envP w k respW \<and> succeeds False respW
         \<and> answered envP
              (after c envP ''PUT'' (''/api/v1/projects/'' @ ident)
                 (Some (marshal_UpdateProjectRequest
                    \<lparr>upr_Name = uname,
                     upr_Description = normalizeDescription udescription\<rparr>)) w (Suc k))
              j respG
         \<and> succeeds True respG
         \<and> w' = after c envP ''GET''
                  (''/api/v1/projects/'' @ ident)
                  None
                  (after c envP ''PUT'' (''/api/v1/projects/'' @ ident)
                     (Some (marshal_UpdateProjectRequest
                    \<lparr>upr_Name = uname,
                     upr_Description = normalizeDescription udescription\<rparr>)) w (Suc k))
                  (Suc j)
         \<and> project = target zero_Project (decoded_result True respG)))"
  by (intro conjI) (rule CreateCheck_iff UpdateCheck_iff CreateProject_iff UpdateProject_iff)+

lemmas accessor_simps = CreateCheck_def UpdateCheck_def GetCheck_def CreateProject_def
  UpdateProject_def GetProject_def CreateCheck_normalize_def UpdateCheck_normalize_def
  normalizeDescription_def normalizeTags_def target_def IsConflict_def StatusConflict_def

theorem read_after_write_witness:
  "fst (CreateCheck example_client env_created example_create world0) =
     Inr (example_check\<lparr>chk_Tags := Some [''backup'', ''database'']\<rparr>)
   \<and> map (\<lambda>e. (req_method (sent_req e), req_url (sent_req e)))
       (sent (snd (CreateCheck example_client env_created example_create world0))) =
       [(''POST'', ''https://api.pakyas.com/api/v1/checks''),
        (''GET'', ''https://api.pakyas.com/api/v1/checks/c1'')]
   \<and> fst (UpdateCheck example_client env_created ''c1'' example_update world0) =
     Inr (example_check\<lparr>chk_Tags := Some [''backup'', ''database'']\<rparr>)
   \<and> map (\<lambda>e. (req_method (sent_req e), req_url (sent_req e)))
       (sent (snd (UpdateCheck example_client env_created ''c1'' example_update world0))) =
       [(''PUT'', ''https://api.pakyas.com/api/v1/checks/c1''),
        (''GET'', ''https://api.pakyas.com/api/v1/checks/c1'')]
   \<and> fst (CreateProject example_client env_project_written ''Production'' (Some ''old text'') world0) =
     Inr (example_project)
   \<and> map (\<lambda>e. (req_method (sent_req e), req_url (sent_req e)))
       (sent (snd (CreateProject example_client env_project_written ''Production'' (Some ''old text'') world0))) =
       [(''POST'', ''https://api.pakyas.com/api/v1/projects''),
        (''GET'', ''https://api.pakyas.com/api/v1/projects/p1'')]
   \<and> fst (UpdateProject example_client env_project_written ''p1'' None (Some ''new text'') world0) =
     Inr (example_project)
   \<and> map (\<lambda>e. (req_method (sent_req e), req_url (sent_req e)))
       (sent (snd (UpdateProject example_client env_project_written ''p1'' None (Some ''new text'') world0))) =
       [(''PUT'', ''https://api.pakyas.com/api/v1/projects/p1''),
        (''GET'', ''https://api.pakyas.com/api/v1/projects/p1'')]"
proof -
  let ?rWc = "\<lparr>resp_StatusCode = 201, resp_Body = ''{...}'', resp_errResp = None,
        resp_decoded = Some (zero_Check\<lparr>chk_ID := ''c1'', chk_Name := ''Daily Backup''\<rparr>)\<rparr> :: Check response"
  let ?rGc = "\<lparr>resp_StatusCode = 200, resp_Body = ''{...}'', resp_errResp = None,
        resp_decoded = Some example_check\<rparr> :: Check response"
  let ?rWp = "\<lparr>resp_StatusCode = 201, resp_Body = ''{...}'', resp_errResp = None,
        resp_decoded = Some (zero_Project\<lparr>prj_ID := ''p1''\<rparr>)\<rparr> :: Project response"
  let ?rGp = "\<lparr>resp_StatusCode = 200, resp_Body = ''{...}'', resp_errResp = None,
        resp_decoded = Some example_project\<rparr> :: Project response"
  let ?w_cc = "after example_client env_created ''GET''
           (''/api/v1/checks/'' @ chk_ID (target zero_Check (decoded_result True ?rWc))) None
           (after example_client env_created ''POST'' ''/api/v1/checks''
           (Some (marshal_CreateCheckRequest (CreateCheck_normalize example_create))) world0 (Suc 0)) (Suc 0)"
  let ?r_cc = "(target zero_Check (decoded_result True ?rGc))
           \<lparr>chk_Tags := normalizeTags (chk_Tags (target zero_Check (decoded_result True ?rGc)))\<rparr>"
  have cc: "CreateCheck example_client env_created example_create world0 =
      (Inr ?r_cc, ?w_cc)"
  proof (rule read_after_write[where c=example_client and envC=env_created and w=world0
           and req=example_create and check="?r_cc" and w'="?w_cc",
           THEN conjunct1, THEN iffD2])
    have a1: "answered env_created world0 0 ?rWc"
      by (simp add: answered_def env_created_def respond_def world0_def)
    have s1: "succeeds True ?rWc"
      by (simp add: succeeds_def)
    have a2: "answered env_created
           (after example_client env_created ''POST'' ''/api/v1/checks''
           (Some (marshal_CreateCheckRequest (CreateCheck_normalize example_create))) world0 (Suc 0)) 0 ?rGc"
      by (simp add: answered_def after_def env_created_def respond_def world0_def)
    have s2: "succeeds True ?rGc"
      by (simp add: succeeds_def)
    from a1 s1 a2 s2 show "\<exists>k j respW respG.
           answered env_created world0 k respW \<and> succeeds True respW
         \<and> answered env_created
              (after example_client env_created ''POST'' ''/api/v1/checks''
                 (Some (marshal_CreateCheckRequest (CreateCheck_normalize example_create))) world0 (Suc k))
              j respG
         \<and> succeeds True respG
         \<and> ?w_cc = after example_client env_created ''GET''
                  (''/api/v1/checks/'' @ chk_ID (target zero_Check (decoded_result True respW)))
                  None
                  (after example_client env_created ''POST'' ''/api/v1/checks''
                     (Some (marshal_CreateCheckRequest (CreateCheck_normalize example_create))) world0 (Suc k))
                  (Suc j)
         \<and> ?r_cc = (target zero_Check (decoded_result True respG))
           \<lparr>chk_Tags := normalizeTags (chk_Tags (target zero_Check (decoded_result True respG)))\<rparr>"
      by blast
  qed
  have cc_res: "fst (CreateCheck example_client env_created example_create world0) =
     Inr (example_check\<lparr>chk_Tags := Some [''backup'', ''database'']\<rparr>)"
    unfolding cc
    by (simp add: decoded_result_def target_def normalizeTags_def example_check_def)
  have cc_log: "map (\<lambda>e. (req_method (sent_req e), req_url (sent_req e)))
       (sent (snd (CreateCheck example_client env_created example_create world0))) =
       [(''POST'', ''https://api.pakyas.com/api/v1/checks''),
        (''GET'', ''https://api.pakyas.com/api/v1/checks/c1'')]"
    unfolding cc
    by (simp add: after_def passes_def new_request_def decoded_result_def target_def
          example_client_def world0_def)
  let ?w_uc = "after example_client env_created ''GET''
           (''/api/v1/checks/'' @ ''c1'') None
           (after example_client env_created ''PUT'' (''/api/v1/checks/'' @ ''c1'')
           (Some (marshal_UpdateCheckRequest (UpdateCheck_normalize example_update))) world0 (Suc 0)) (Suc 0)"
  let ?r_uc = "(target zero_Check (decoded_result True ?rGc))
           \<lparr>chk_Tags := normalizeTags (chk_Tags (target zero_Check (decoded_result True ?rGc)))\<rparr>"
  have uc: "UpdateCheck example_client env_created ''c1'' example_update world0 =
      (Inr ?r_uc, ?w_uc)"
  proof (rule read_after_write[where c=example_client and envC=env_created and w=world0
           and ident="''c1''" and ureq=example_update and check="?r_uc" and w'="?w_uc",
           THEN conjunct2, THEN conjunct1, THEN iffD2])
    have a1: "answered env_created world0 0 ?rWc"
      by (simp add: answered_def env_created_def respond_def world0_def)
    have s1: "succeeds False ?rWc"
      by (simp add: succeeds_def)
    have a2: "answered env_created
           (after example_client env_created ''PUT'' (''/api/v1/checks/'' @ ''c1'')
           (Some (marshal_UpdateCheckRequest (UpdateCheck_normalize example_update))) world0 (Suc 0)) 0 ?rGc"
      by (simp add: answered_def after_def env_created_def respond_def world0_def)
    have s2: "succeeds True ?rGc"
      by (simp add: succeeds_def)
    from a1 s1 a2 s2 show "\<exists>k j respW respG.
           answered env_created world0 k respW \<and> succeeds False respW
         \<and> answered env_created
              (after example_client env_created ''PUT'' (''/api/v1/checks/'' @ ''c1'')
                 (Some (marshal_UpdateCheckRequest (UpdateCheck_normalize example_update))) world0 (Suc k))
              j respG
         \<and> succeeds True respG
         \<and> ?w_uc = after example_client env_created ''GET''
                  (''/api/v1/checks/'' @ ''c1'')
                  None
                  (after example_client env_created ''PUT'' (''/api/v1/checks/'' @ ''c1'')
                     (Some (marshal_UpdateCheckRequest (UpdateCheck_normalize example_update))) world0 (Suc k))
                  (Suc j)
         \<and> ?r_uc = (target zero_Check (decoded_result True respG))
           \<lparr>chk_Tags := normalizeTags (chk_Tags (target zero_Check (decoded_result True respG)))\<rparr>"
      by blast
  qed
  have uc_res: "fst (UpdateCheck example_client env_created ''c1'' example_update world0) =
     Inr (example_check\<lparr>chk_Tags := Some [''backup'', ''database'']\<rparr>)"
    unfolding uc
    by (simp add: decoded_result_def target_def normalizeTags_def example_check_def)
  have uc_log: "map (\<lambda>e. (req_method (sent_req e), req_url (sent_req e)))
       (sent (snd (UpdateCheck example_client env_created ''c1'' example_update world0))) =
       [(''PUT'', ''https://api.pakyas.com/api/v1/checks/c1''),
        (''GET'', ''https://api.pakyas.com/api/v1/checks/c1'')]"
    unfolding uc
    by (simp add: after_def passes_def new_request_def decoded_result_def target_def
          example_client_def world0_def)
  let ?w_cp = "after example_client env_project_written ''GET''
           (''/api/v1/projects/'' @ prj_ID (target zero_Project (decoded_result True ?rWp))) None
           (after example_client env_project_written ''POST'' ''/api/v1/projects''
           (Some (marshal_CreateProjectRequest
            \<lparr>cpr_OrgID = orgID example_client, cpr_Name = ''Production'',
             cpr_Description = normalizeDescription (Some ''old text'')\<rparr>)) world0 (Suc 0)) (Suc 0)"
  let ?r_cp = "target zero_Project (decoded_result True ?rGp)"
  have cp: "CreateProject example_client env_project_written ''Production'' (Some ''old text'') world0 =
      (Inr ?r_cp, ?w_cp)"
  proof (rule read_after_write[where c=example_client and envP=env_project_written and w=world0
           and name="''Production''" and description="Some ''old text''" and project="?r_cp" and w'="?w_cp",
           THEN conjunct2, THEN conjunct2, THEN conjunct1, THEN iffD2])
    have a1: "answered env_project_written world0 0 ?rWp"
      by (simp add: answered_def env_project_written_def respond_def world0_def)
    have s1: "succeeds True ?rWp"
      by (simp add: succeeds_def)
    have a2: "answered env_project_written
           (after example_client env_project_written ''POST'' ''/api/v1/projects''
           (Some (marshal_CreateProjectRequest
            \<lparr>cpr_OrgID = orgID example_client, cpr_Name = ''Production'',
             cpr_Description = normalizeDescription (Some ''old text'')\<rparr>)) world0 (Suc 0)) 0 ?rGp"
      by (simp add: answered_def after_def env_project_written_def respond_def world0_def)
    have s2: "succeeds True ?rGp"
      by (simp add: succeeds_def)
    from a1 s1 a2 s2 show "\<exists>k j respW respG.
           answered env_project_written world0 k respW \<and> succeeds True respW
         \<and> answered env_project_written
              (after example_client env_project_written ''POST'' ''/api/v1/projects''
                 (Some (marshal_CreateProjectRequest
            \<lparr>cpr_OrgID = orgID example_client, cpr_Name = ''Production'',
             cpr_Description = normalizeDescription (Some ''old text'')\<rparr>)) world0 (Suc k))
              j respG
         \<and> succeeds True respG
         \<and> ?w_cp = after example_client env_project_written ''GET''
                  (''/api/v1/projects/'' @ prj_ID (target zero_Project (decoded_result True respW)))
                  None
                  (after example_client env_project_written ''POST'' ''/api/v1/projects''
                     (Some (marshal_CreateProjectRequest
            \<lparr>cpr_OrgID = orgID example_client, cpr_Name = ''Production'',
             cpr_Description = normalizeDescription (Some ''old text'')\<rparr>)) world0 (Suc k))
                  (Suc j)
         \<and> ?r_cp = target zero_Project (decoded_result True respG)"
      by blast
  qed
  have cp_res: "fst (CreateProject example_client env_project_written ''Production'' (Some ''old text'') world0) =
     Inr (example_project)"
    unfolding cp
    by (simp add: decoded_result_def target_def normalizeTags_def example_check_def)
  have cp_log: "map (\<lambda>e. (req_method (sent_req e), req_url (sent_req e)))
       (sent (snd (CreateProject example_client env_project_written ''Production'' (Some ''old text'') world0))) =
       [(''POST'', ''https://api.pakyas.com/api/v1/projects''),
        (''GET'', ''https://api.pakyas.com/api/v1/projects/p1'')]"
    unfolding cp
    by (simp add: after_def passes_def new_request_def decoded_result_def target_def
          example_client_def world0_def)
  let ?w_up = "after example_client env_project_written ''GET''
           (''/api/v1/projects/'' @ ''p1'') None
           (after example_client env_project_written ''PUT'' (''/api/v1/projects/'' @ ''p1'')
           (Some (marshal_UpdateProjectRequest
            \<lparr>upr_Name = None,
             upr_Description = normalizeDescription (Some ''new text'')\<rparr>)) world0 (Suc 0)) (Suc 0)"
  let ?r_up = "target zero_Project (decoded_result True ?rGp)"
  have up: "UpdateProject example_client env_project_written ''p1'' None (Some ''new text'') world0 =
      (Inr ?r_up, ?w_up)"
  proof (rule read_after_write[where c=example_client and envP=env_project_written and w=world0
           and ident="''p1''" and uname=None and udescription="Some ''new text''" and project="?r_up" and w'="?w_up",
           THEN conjunct2, THEN conjunct2, THEN conjunct2, THEN iffD2])
    have a1: "answered env_project_written world0 0 ?rWp"
      by (simp add: answered_def env_project_written_def respond_def world0_def)
    have s1: "succeeds False ?rWp"
      by (simp add: succeeds_def)
    have a2: "answered env_project_written
           (after example_client env_project_written ''PUT'' (''/api/v1/projects/'' @ ''p1'')
           (Some (marshal_UpdateProjectRequest
            \<lparr>upr_Name = None,
             upr_Description = normalizeDescription (Some ''new text'')\<rparr>)) world0 (Suc 0)) 0 ?rGp"
      by (simp add: answered_def after_def env_project_written_def respond_def world0_def)
    have s2: "succeeds True ?rGp"
      by (simp add: succeeds_def)
    from a1 s1 a2 s2 show "\<exists>k j respW respG.
           answered env_project_written world0 k respW \<and> succeeds False respW
         \<and> answered env_project_written
              (after example_client env_project_written ''PUT'' (''/api/v1/projects/'' @ ''p1'')
                 (Some (marshal_UpdateProjectRequest
            \<lparr>upr_Name = None,
             upr_Description = normalizeDescription (Some ''new text'')\<rparr>)) world0 (Suc k))
              j respG
         \<and> succeeds True respG
         \<and> ?w_up = after example_client env_project_written ''GET''
                  (''/api/v1/projects/'' @ ''p1'')
                  None
                  (after example_client env_project_written ''PUT'' (''/api/v1/projects/'' @ ''p1'')
                     (Some (marshal_UpdateProjectRequest
            \<lparr>upr_Name = None,
             upr_Description = normalizeDescription (Some ''new text'')\<rparr>)) world0 (Suc k))
                  (Suc j)
         \<and> ?r_up = target zero_Project (decoded_result True respG)"
      by blast
  qed
  have up_res: "fst (UpdateProject example_client env_project_written ''p1'' None (Some ''new text'') world0) =
     Inr (example_project)"
    unfolding up
    by (simp add: decoded_result_def target_def normalizeTags_def example_check_def)
  have up_log: "map (\<lambda>e. (req_method (sent_req e), req_url (sent_req e)))
       (sent (snd (UpdateProject example_client env_project_written ''p1'' None (Some ''new text'') world0))) =
       [(''PUT'', ''https://api.pakyas.com/api/v1/projects/p1''),
        (''GET'', ''https://api.pakyas.com/api/v1/projects/p1'')]"
    unfolding up
    by (simp add: after_def passes_def new_request_def decoded_result_def target_def
          example_client_def world0_def)
  from cc_res cc_log uc_res uc_log cp_res cp_log up_res up_log show ?thesis
    by (intro conjI)
qed

section \<open>What an update transmits\<close>

lemmas resource_simps = ProjectResource_Update_def CheckResource_Update_def
  CheckResource_updateReq_def CheckResource_Create_def CheckResource_createReq_def
  CheckResource_Read_def mapCheckToModel_def Equal_def SetEqual_def IsNull_def IsUnknown_def
  ValueString_def ValueInt64_def ValueBool_def ElementsAs_def len_def
  marshal_UpdateCheckRequest_def marshal_UpdateProjectRequest_def
  marshal_CreateCheckRequest_def omitempty_ptr_def
  omitempty_strings_def omitempty_int64_def omitempty_bool_def

text \<open>No update can carry the empty string as a description: the accessor turns it into
  nil before marshalling, and a nil pointer is left out of the object.\<close>

lemma update_never_sends_empty_description:
  "field (marshal_UpdateCheckRequest (UpdateCheck_normalize r)) ''description''
     \<noteq> Some (JString [])"
  "field (marshal_UpdateProjectRequest
      \<lparr>upr_Name = name, upr_Description = normalizeDescription description\<rparr>) ''description''
     \<noteq> Some (JString [])"
  by (auto simp: field_def marshal_UpdateCheckRequest_def marshal_UpdateProjectRequest_def
        UpdateCheck_normalize_def normalizeDescription_def Let_def omitempty_ptr_def
        omitempty_strings_def normalizeTags_def split: option.splits if_splits)

text \<open>
  Claim C1, evaluated where it fails. The plan has a null description and the prior state
  a description; the server answers every request with 200. \<open>Update\<close> sends a PUT and
  then a GET, and the body of the PUT is the empty object: it has no member
  \<^verbatim>\<open>description\<close>, for a project and for a check alike.
\<close>

theorem clear_description_sends_no_description:
  "map (\<lambda>e. (req_method (sent_req e), req_body (sent_req e)))
     (sent (snd (ProjectResource_Update example_client env_project
        (example_project_state\<lparr>prm_Description := Null\<rparr>) example_project_state world0))) =
     [(''PUT'', Some []), (''GET'', None)]
   \<and> map (\<lambda>e. (req_method (sent_req e), req_body (sent_req e)))
     (sent (snd (CheckResource_Update example_client env_check
        (example_check_state\<lparr>crm_Description := Null\<rparr>) example_check_state world0))) =
     [(''PUT'', Some []), (''GET'', None)]"
proof -
  have p: "map (\<lambda>e. (req_method (sent_req e), req_body (sent_req e)))
     (sent (snd (ProjectResource_Update example_client env_project
        (example_project_state\<lparr>prm_Description := Null\<rparr>) example_project_state world0))) =
     [(''PUT'', Some []), (''GET'', None)]"
    by (simp add: resource_simps accessor_simps run_simps env_project_def
          example_project_state_def world0_def)
  have c: "map (\<lambda>e. (req_method (sent_req e), req_body (sent_req e)))
     (sent (snd (CheckResource_Update example_client env_check
        (example_check_state\<lparr>crm_Description := Null\<rparr>) example_check_state world0))) =
     [(''PUT'', Some []), (''GET'', None)]"
    by (simp add: resource_simps accessor_simps run_simps env_check_def
          example_check_state_def world0_def)
  from p c show ?thesis by (rule conjI)
qed

text \<open>
  Claim C4, evaluated where it fails. The prior state has the tags "backup" and
  "database"; the plan has no tags (a null set, or an empty one), and is otherwise the
  prior state. The tags differ, yet the body of the PUT that \<open>Update\<close> sends is the empty
  object: it has no member \<^verbatim>\<open>tags\<close>.
\<close>

theorem cleared_tags_send_no_tags:
  "\<not> SetEqual (crm_Tags (example_check_state\<lparr>crm_Tags := Null\<rparr>))
        (crm_Tags example_check_state)
   \<and> map (\<lambda>e. (req_method (sent_req e), req_body (sent_req e)))
     (sent (snd (CheckResource_Update example_client env_check
        (example_check_state\<lparr>crm_Tags := Null\<rparr>) example_check_state world0))) =
     [(''PUT'', Some []), (''GET'', None)]
   \<and> \<not> SetEqual (crm_Tags (example_check_state\<lparr>crm_Tags := Known []\<rparr>))
        (crm_Tags example_check_state)
   \<and> map (\<lambda>e. (req_method (sent_req e), req_body (sent_req e)))
     (sent (snd (CheckResource_Update example_client env_check
        (example_check_state\<lparr>crm_Tags := Known []\<rparr>) example_check_state world0))) =
     [(''PUT'', Some []), (''GET'', None)]"
proof -
  have d1: "\<not> SetEqual (crm_Tags (example_check_state\<lparr>crm_Tags := Null\<rparr>))
        (crm_Tags example_check_state)"
    by (simp add: SetEqual_def IsNull_def example_check_state_def)
  have d2: "\<not> SetEqual (crm_Tags (example_check_state\<lparr>crm_Tags := Known []\<rparr>))
        (crm_Tags example_check_state)"
    by (simp add: SetEqual_def example_check_state_def)
  have r1: "map (\<lambda>e. (req_method (sent_req e), req_body (sent_req e)))
     (sent (snd (CheckResource_Update example_client env_check
        (example_check_state\<lparr>crm_Tags := Null\<rparr>) example_check_state world0))) =
     [(''PUT'', Some []), (''GET'', None)]"
    by (simp add: resource_simps accessor_simps run_simps env_check_def
          example_check_state_def world0_def)
  have r2: "map (\<lambda>e. (req_method (sent_req e), req_body (sent_req e)))
     (sent (snd (CheckResource_Update example_client env_check
        (example_check_state\<lparr>crm_Tags := Known []\<rparr>) example_check_state world0))) =
     [(''PUT'', Some []), (''GET'', None)]"
    by (simp add: resource_simps accessor_simps run_simps env_check_def
          example_check_state_def world0_def)
  from d1 r1 d2 r2 show ?thesis by (intro conjI)
qed

section \<open>How tags are represented\<close>















section \<open>normalizeTags leaves its argument alone\<close>

lemma length_elems:
  assumes "valid_slice h s"
  shows "length (elems h s) = sl_len s"
  using assms by (auto simp: valid_slice_def elems_def)

lemma normalizeTags_store_nil:
  "normalizeTags_store h None =
     (h @ [[]], Some \<lparr>sl_array = length h, sl_off = 0, sl_len = 0\<rparr>)"
  by (simp add: normalizeTags_store_def make_strings_def)

lemma normalizeTags_store_slice:
  assumes "valid_slice h t"
  shows "normalizeTags_store h (Some t) =
     (h @ [sort (elems h t)], Some \<lparr>sl_array = length h, sl_off = 0, sl_len = sl_len t\<rparr>)"
proof -
  let ?n = "sl_len t"
  let ?s = "\<lparr>sl_array = length h, sl_off = 0, sl_len = ?n\<rparr>"
  let ?h1 = "h @ [replicate ?n []]"
  have src: "elems ?h1 t = elems h t"
    using assms by (simp add: elems_def valid_slice_def nth_append)
  have len: "length (elems h t) = ?n"
    by (rule length_elems[OF assms])
  have h2: "copy_strings ?h1 ?s t = h @ [elems h t]"
    by (simp add: copy_strings_def write_window_def src len)
  have el: "elems (h @ [elems h t]) ?s = elems h t"
    by (simp add: elems_def len)
  have h3: "sort_Strings (h @ [elems h t]) ?s = h @ [sort (elems h t)]"
    by (simp add: sort_Strings_def write_window_def el len)
  show ?thesis
    by (simp add: normalizeTags_store_def make_strings_def Let_def h2 h3)
qed

text \<open>
  Claim C10. For every slice \<open>T\<close> (nil, or a window of an array of the store),
  \<open>normalizeTags\<close> returns a slice over an array that did not exist before the call; the
  store after the call is the store before it with that one array added, so every array
  that existed, the caller's among them, holds the same strings in the same order and the
  caller's slice reads as before. The new slice holds what the value-level
  \<open>normalizeTags\<close> computes. \<open>CreateCheck\<close>, \<open>GetCheck\<close> and \<open>UpdateCheck\<close> touch tags
  through \<open>normalizeTags\<close> only, storing the slice it returns in their own copy of the
  struct.
\<close>

theorem normalizeTags_fresh_and_frame:
  assumes "normalizeTags_store h T = (h', R)"
    and "list_all (valid_slice h) (case T of None \<Rightarrow> [] | Some t \<Rightarrow> [t])"
  shows "(\<exists>s. R = Some s \<and> sl_array s = length h \<and> valid_slice h' s)
       \<and> length h' = Suc (length h)
       \<and> take (length h) h' = h
       \<and> list_all (\<lambda>t. elems h' t = elems h t) (case T of None \<Rightarrow> [] | Some t \<Rightarrow> [t])
       \<and> map_option (elems h') R = normalizeTags (map_option (elems h) T)"
proof (cases T)
  case None
  with assms(1) have "h' = h @ [[]]"
    and "R = Some \<lparr>sl_array = length h, sl_off = 0, sl_len = 0\<rparr>"
    by (simp_all add: normalizeTags_store_nil)
  with None show ?thesis
    by (simp add: valid_slice_def elems_def normalizeTags_def)
next
  case (Some t)
  with assms(2) have v: "valid_slice h t" by simp
  from assms(1) Some normalizeTags_store_slice[OF v]
  have h': "h' = h @ [sort (elems h t)]"
    and R: "R = Some \<lparr>sl_array = length h, sl_off = 0, sl_len = sl_len t\<rparr>"
    by simp_all
  have same: "elems h' t = elems h t"
    using v by (simp add: h' elems_def valid_slice_def nth_append)
  have new: "elems h' \<lparr>sl_array = length h, sl_off = 0, sl_len = sl_len t\<rparr> = sort (elems h t)"
    by (simp add: h' elems_def length_elems[OF v])
  have valid: "valid_slice h' \<lparr>sl_array = length h, sl_off = 0, sl_len = sl_len t\<rparr>"
    by (simp add: h' valid_slice_def length_elems[OF v])
  show ?thesis
    using Some R same new valid by (simp add: h' normalizeTags_def)
qed

theorem normalizeTags_fresh_and_frame_witness:
  "normalizeTags_store [[''zeta'', ''database'', ''backup'', ''alpha'']]
       (Some \<lparr>sl_array = 0, sl_off = 1, sl_len = 2\<rparr>) =
     ([[''zeta'', ''database'', ''backup'', ''alpha''], [''backup'', ''database'']],
      Some \<lparr>sl_array = 1, sl_off = 0, sl_len = 2\<rparr>)
   \<and> valid_slice [[''zeta'', ''database'', ''backup'', ''alpha'']]
       \<lparr>sl_array = 0, sl_off = 1, sl_len = 2\<rparr>
   \<and> elems [[''zeta'', ''database'', ''backup'', ''alpha''], [''backup'', ''database'']]
       \<lparr>sl_array = 0, sl_off = 1, sl_len = 2\<rparr> =
     elems [[''zeta'', ''database'', ''backup'', ''alpha'']]
       \<lparr>sl_array = 0, sl_off = 1, sl_len = 2\<rparr>
   \<and> take (length [[''zeta'', ''database'', ''backup'', ''alpha'']])
        [[''zeta'', ''database'', ''backup'', ''alpha''], [''backup'', ''database'']] =
     [[''zeta'', ''database'', ''backup'', ''alpha'']]"
proof -
  let ?h = "[[''zeta'', ''database'', ''backup'', ''alpha'']]"
  let ?t = "\<lparr>sl_array = 0, sl_off = 1, sl_len = 2\<rparr>"
  let ?h' = "[[''zeta'', ''database'', ''backup'', ''alpha''], [''backup'', ''database'']]"
  have run: "normalizeTags_store ?h (Some ?t) = (?h', Some \<lparr>sl_array = 1, sl_off = 0, sl_len = 2\<rparr>)"
    by (simp add: normalizeTags_store_def make_strings_def copy_strings_def sort_Strings_def
          write_window_def elems_def Let_def)
  have v: "valid_slice ?h ?t"
    by (simp add: valid_slice_def)
  then have vs: "list_all (valid_slice ?h) (case Some ?t of None \<Rightarrow> [] | Some t \<Rightarrow> [t])"
    by simp
  from normalizeTags_fresh_and_frame[OF run vs]
  have "take (length ?h) ?h' = ?h" and "elems ?h' ?t = elems ?h ?t"
    by simp_all
  with run v show ?thesis by (intro conjI)
qed

end
